theory Spec2Isabelle
  imports Main
begin

unbundle bit_operations_syntax

section \<open>Integer vectors and boxes\<close>

text \<open>
  The streaming code of \<^verbatim>\<open>voxel_lod_terrain_update_clipbox_streaming.cpp\<close> works on
  \<^verbatim>\<open>Vector3i\<close> and \<^verbatim>\<open>Box3i\<close> values in chunk coordinates. The C++ \<^verbatim>\<open>int\<close> is modelled
  by the unbounded integers: signed overflow is undefined behaviour in C++, so the model
  describes every execution whose arithmetic is defined. A right shift of a signed integer
  by \<open>k\<close> is the floored division by \<open>2 ^ k\<close>, a left shift the multiplication.
\<close>

type_synonym Vector3i = "int \<times> int \<times> int"

datatype axis = X | Y | Z

fun coord :: "axis \<Rightarrow> Vector3i \<Rightarrow> int" where
  "coord X (a, b, c) = a"
| "coord Y (a, b, c) = b"
| "coord Z (a, b, c) = c"

fun create :: "int \<Rightarrow> Vector3i" where
  "create v = (v, v, v)"

fun v_add :: "Vector3i \<Rightarrow> Vector3i \<Rightarrow> Vector3i" where
  "v_add (a, b, c) (d, e, f) = (a + d, b + e, c + f)"

fun v_sub :: "Vector3i \<Rightarrow> Vector3i \<Rightarrow> Vector3i" where
  "v_sub (a, b, c) (d, e, f) = (a - d, b - e, c - f)"

fun v_mul :: "Vector3i \<Rightarrow> int \<Rightarrow> Vector3i" where
  "v_mul (a, b, c) k = (a * k, b * k, c * k)"

fun v_shr :: "Vector3i \<Rightarrow> nat \<Rightarrow> Vector3i" where
  "v_shr (a, b, c) k = (a div 2 ^ k, b div 2 ^ k, c div 2 ^ k)"

fun v_shl :: "Vector3i \<Rightarrow> nat \<Rightarrow> Vector3i" where
  "v_shl (a, b, c) k = (a * 2 ^ k, b * 2 ^ k, c * 2 ^ k)"

text \<open>
  Modelled from the spec: \<^verbatim>\<open>math::floordiv\<close> and \<^verbatim>\<open>math::ceildiv\<close> (declared in
  \<^verbatim>\<open>util/math\<close>, which is not among the sources) are the floored and the ceiled quotient
  by a strictly positive divisor.
\<close>

definition floordiv :: "int \<Rightarrow> int \<Rightarrow> int" where
  "floordiv x d = x div d"

definition ceildiv :: "int \<Rightarrow> int \<Rightarrow> int" where
  "ceildiv x d = - floordiv (- x) d"

fun floordiv_v :: "Vector3i \<Rightarrow> int \<Rightarrow> Vector3i" where
  "floordiv_v (a, b, c) d = (floordiv a d, floordiv b d, floordiv c d)"

fun ceildiv_v :: "Vector3i \<Rightarrow> int \<Rightarrow> Vector3i" where
  "ceildiv_v (a, b, c) d = (ceildiv a d, ceildiv b d, ceildiv c d)"

text \<open>
  Modelled from the spec: \<^verbatim>\<open>Box3i\<close> (declared in \<^verbatim>\<open>util/math/box3i.h\<close>, which is not among
  the sources) is an integer axis-aligned box given by its minimum corner \<open>pos\<close> and its
  \<open>size\<close>; its maximum corner \<open>pos + size\<close> is exclusive. The field \<open>size\<close> is named
  \<open>bsize\<close> here.
\<close>

record Box3i =
  pos :: Vector3i
  bsize :: Vector3i

definition box_end :: "Box3i \<Rightarrow> Vector3i" where
  "box_end b = v_add (pos b) (bsize b)"

definition from_min_max :: "Vector3i \<Rightarrow> Vector3i \<Rightarrow> Box3i" where
  "from_min_max p_min p_max = \<lparr>pos = p_min, bsize = v_sub p_max p_min\<rparr>"

definition Box3i_zero :: Box3i where
  "Box3i_zero = \<lparr>pos = (0, 0, 0), bsize = (0, 0, 0)\<rparr>"

definition all_axes :: "(axis \<Rightarrow> bool) \<Rightarrow> bool" where
  "all_axes P = (P X \<and> P Y \<and> P Z)"

definition contains :: "Box3i \<Rightarrow> Vector3i \<Rightarrow> bool" where
  "contains b p =
     all_axes (\<lambda>a. coord a (pos b) \<le> coord a p \<and> coord a p < coord a (box_end b))"

definition contains_box :: "Box3i \<Rightarrow> Box3i \<Rightarrow> bool" where
  "contains_box b other =
     all_axes (\<lambda>a. coord a (pos b) \<le> coord a (pos other)
                 \<and> coord a (box_end other) \<le> coord a (box_end b))"

definition intersects :: "Box3i \<Rightarrow> Box3i \<Rightarrow> bool" where
  "intersects b other =
     all_axes (\<lambda>a. \<not> coord a (pos b) \<ge> coord a (box_end other)
                 \<and> \<not> coord a (pos other) \<ge> coord a (box_end b))"

definition padded :: "Box3i \<Rightarrow> int \<Rightarrow> Box3i" where
  "padded b m = \<lparr>pos = v_sub (pos b) (create m), bsize = v_add (bsize b) (create (2 * m))\<rparr>"

definition scaled :: "Box3i \<Rightarrow> int \<Rightarrow> Box3i" where
  "scaled b k = \<lparr>pos = v_mul (pos b) k, bsize = v_mul (bsize b) k\<rparr>"

text \<open>\<open>downscaled\<close> rounds outwards, \<open>downscaled_inner\<close> inwards.\<close>

definition downscaled :: "Box3i \<Rightarrow> int \<Rightarrow> Box3i" where
  "downscaled b step_size =
     from_min_max (floordiv_v (pos b) step_size) (ceildiv_v (box_end b) step_size)"

definition downscaled_inner :: "Box3i \<Rightarrow> int \<Rightarrow> Box3i" where
  "downscaled_inner b step_size =
     from_min_max (ceildiv_v (pos b) step_size) (floordiv_v (box_end b) step_size)"

definition clamp :: "int \<Rightarrow> int \<Rightarrow> int \<Rightarrow> int" where
  "clamp v lo hi = (if v < lo then lo else if v > hi then hi else v)"

text \<open>
  \<open>clip_range\<close> clamps both ends of a range to the limits and never returns a negative
  size; it gives the new position and the new size.
\<close>

definition clip_range :: "int \<Rightarrow> int \<Rightarrow> int \<Rightarrow> int \<Rightarrow> int \<times> int" where
  "clip_range p sz lim_pos lim_size =
     (let lim_max_pos = lim_pos + lim_size;
          p' = clamp p lim_pos lim_max_pos;
          max_pos = clamp (p + sz) lim_pos lim_max_pos;
          sz' = max_pos - p'
      in (p', if sz' < 0 then 0 else sz'))"

definition clipped :: "Box3i \<Rightarrow> Box3i \<Rightarrow> Box3i" where
  "clipped b lim =
     (let cx = clip_range (coord X (pos b)) (coord X (bsize b))
                 (coord X (pos lim)) (coord X (bsize lim));
          cy = clip_range (coord Y (pos b)) (coord Y (bsize b))
                 (coord Y (pos lim)) (coord Y (bsize lim));
          cz = clip_range (coord Z (pos b)) (coord Z (bsize b))
                 (coord Z (pos lim)) (coord Z (bsize lim))
      in \<lparr>pos = (fst cx, fst cy, fst cz), bsize = (snd cx, snd cy, snd cz)\<rparr>)"

fun v_min :: "Vector3i \<Rightarrow> Vector3i \<Rightarrow> Vector3i" where
  "v_min (a, b, c) (d, e, f) = (min a d, min b e, min c f)"

fun v_max :: "Vector3i \<Rightarrow> Vector3i \<Rightarrow> Vector3i" where
  "v_max (a, b, c) (d, e, f) = (max a d, max b e, max c f)"

definition merge_with :: "Box3i \<Rightarrow> Box3i \<Rightarrow> Box3i" where
  "merge_with b other =
     from_min_max (v_min (pos b) (pos other)) (v_max (box_end b) (box_end other))"

text \<open>
  \<open>for_each_cell\<close> visits the cells of a box with \<open>z\<close> in the outer loop and \<open>x\<close> in
  the inner one; \<open>cells\<close> lists them in that order.
\<close>

definition cells :: "Box3i \<Rightarrow> Vector3i list" where
  "cells b =
     concat (map (\<lambda>cz. concat (map (\<lambda>cy. map (\<lambda>cx. (cx, cy, cz))
         [coord X (pos b)..coord X (box_end b) - 1])
       [coord Y (pos b)..coord Y (box_end b) - 1]))
     [coord Z (pos b)..coord Z (box_end b) - 1])"

definition for_each_cell :: "Box3i \<Rightarrow> (Vector3i \<Rightarrow> 's \<Rightarrow> 's) \<Rightarrow> 's \<Rightarrow> 's" where
  "for_each_cell b action s = fold action (cells b) s"

text \<open>
  \<open>difference\<close> subtracts a box from this box and hands the remaining area to a callback
  as at most six boxes: nothing is cut when the boxes do not intersect, nothing remains
  when the other box contains this one, and otherwise the slabs below the other box's
  minimum are cut along \<open>x\<close>, \<open>y\<close> and \<open>z\<close>, then the slabs above its maximum.
  \<open>difference\<close> gives the boxes in the order of the calls.
\<close>

definition difference :: "Box3i \<Rightarrow> Box3i \<Rightarrow> Box3i list" where
  "difference b other =
     (if \<not> intersects b other then [b]
      else if contains_box other b then []
      else
       (case (pos b, box_end b, pos other, box_end other) of
          ((ax, ay, az), (ex, ey, ez), (bx, by, bz), (fx, fy, fz)) \<Rightarrow>
           (let sy = coord Y (bsize b); sz = coord Z (bsize b);
                r1 = (if ax < bx then [\<lparr>pos = (ax, ay, az), bsize = (bx - ax, sy, sz)\<rparr>] else []);
                ax1 = (if ax < bx then bx else ax);
                r2 = (if ay < by then [\<lparr>pos = (ax1, ay, az), bsize = (ex - ax1, by - ay, sz)\<rparr>]
                      else []);
                ay1 = (if ay < by then by else ay);
                r3 = (if az < bz
                      then [\<lparr>pos = (ax1, ay1, az), bsize = (ex - ax1, ey - ay1, bz - az)\<rparr>]
                      else []);
                az1 = (if az < bz then bz else az);
                r4 = (if ex > fx
                      then [\<lparr>pos = (fx, ay1, az1), bsize = (ex - fx, ey - ay1, ez - az1)\<rparr>]
                      else []);
                ex1 = (if ex > fx then fx else ex);
                r5 = (if ey > fy
                      then [\<lparr>pos = (ax1, fy, az1), bsize = (ex1 - ax1, ey - fy, ez - az1)\<rparr>]
                      else []);
                ey1 = (if ey > fy then fy else ey);
                r6 = (if ez > fz
                      then [\<lparr>pos = (ax1, ay1, fz), bsize = (ex1 - ax1, ey1 - ay1, ez - fz)\<rparr>]
                      else [])
            in r1 @ r2 @ r3 @ r4 @ r5 @ r6)))"

text \<open>
  Modelled from the spec: \<^verbatim>\<open>unordered_remove_if\<close> (declared in \<^verbatim>\<open>util\<close>, which is not
  among the sources) removes the elements a predicate selects without keeping the order:
  a removed element is replaced by the last one, which is examined next. The predicate may
  change a state, which is threaded through the calls.
\<close>

function unordered_remove_if_from ::
  "('a \<Rightarrow> 's \<Rightarrow> bool \<times> 's) \<Rightarrow> nat \<Rightarrow> 'a list \<Rightarrow> 's \<Rightarrow> 'a list \<times> 's" where
  "unordered_remove_if_from predicate i vec s =
     (if i < length vec
      then (case predicate (vec ! i) s of
              (True, s') \<Rightarrow> unordered_remove_if_from predicate i (butlast (vec[i := last vec])) s'
            | (False, s') \<Rightarrow> unordered_remove_if_from predicate (i + 1) vec s')
      else (vec, s))"
  by pat_completeness auto
termination
  by (relation "measure (\<lambda>(predicate, i, vec, s). length vec - i)") auto

declare unordered_remove_if_from.simps [simp del]

definition unordered_remove_if ::
  "('a \<Rightarrow> 's \<Rightarrow> bool \<times> 's) \<Rightarrow> 'a list \<Rightarrow> 's \<Rightarrow> 'a list \<times> 's" where
  "unordered_remove_if predicate vec s = unordered_remove_if_from predicate 0 vec s"

section \<open>The clipbox planner\<close>

definition get_base_box_in_chunks :: "Vector3i \<Rightarrow> int \<Rightarrow> int \<Rightarrow> bool \<Rightarrow> Box3i" where
  "get_base_box_in_chunks viewer_position_voxels distance_voxels chunk_size make_even =
    (let minp0 = v_sub viewer_position_voxels (create distance_voxels);
         maxp0 = v_add viewer_position_voxels (create (distance_voxels + 1));
         minp1 = floordiv_v minp0 chunk_size;
         maxp1 = ceildiv_v maxp0 chunk_size;
         minp = (if make_even then v_mul (floordiv_v minp1 2) 2 else minp1);
         maxp = (if make_even then v_mul (ceildiv_v maxp1 2) 2 else maxp1)
     in from_min_max minp maxp)"

section \<open>The streaming state\<close>

text \<open>
  Modelled from the spec: the records of \<^verbatim>\<open>VoxelLodTerrainUpdateData\<close> (declared in
  \<^verbatim>\<open>voxel_lod_terrain_update_data.h\<close>, which is not among the sources) follow the spec's
  data model. A reference count is a natural number; \<^verbatim>\<open>RefCount::remove\<close> refuses to go
  below zero. The per-LOD maps are partial functions from chunk positions, the fixed
  arrays indexed by LOD are functions from the LOD index.
\<close>

datatype MeshState = MESH_NEVER_UPDATED | MESH_NEED_UPDATE | MESH_UPDATE_NOT_SENT | MESH_UPDATE_SENT

definition refcount_add :: "nat \<Rightarrow> nat" where
  "refcount_add c = c + 1"

definition refcount_remove :: "nat \<Rightarrow> nat" where
  "refcount_remove c = (if c = 0 then 0 else c - 1)"

record MeshBlockState =
  state :: MeshState
  active :: bool
  loaded :: bool
  mesh_viewers :: nat
  collision_viewers :: nat

definition new_MeshBlockState :: MeshBlockState where
  "new_MeshBlockState = \<lparr>state = MESH_NEVER_UPDATED, active = False, loaded = False,
     mesh_viewers = 0, collision_viewers = 0\<rparr>"

record LoadingDataBlock =
  viewers :: nat

record Lod =
  mesh_map :: "Vector3i \<rightharpoonup> MeshBlockState"
  loading_blocks :: "Vector3i \<rightharpoonup> LoadingDataBlock"
  mesh_blocks_pending_update :: "Vector3i list"
  mesh_blocks_to_activate :: "Vector3i list"
  mesh_blocks_to_deactivate :: "Vector3i list"
  mesh_blocks_to_unload :: "Vector3i list"

type_synonym BlockLocation = "Vector3i \<times> nat"

type_synonym ViewerID = nat

record ViewerBoxState =
  view_distance_voxels :: int
  local_position_voxels :: Vector3i
  requires_collisions :: bool
  requires_meshes :: bool
  data_box_per_lod :: "nat \<Rightarrow> Box3i"
  mesh_box_per_lod :: "nat \<Rightarrow> Box3i"

record PairedViewer =
  viewer_id :: ViewerID
  vstate :: ViewerBoxState
  prev_state :: ViewerBoxState

record State =
  lods :: "nat \<Rightarrow> Lod"
  paired_viewers :: "PairedViewer list"
  loaded_data_blocks :: "BlockLocation list"
  loaded_mesh_blocks :: "BlockLocation list"

definition update_lod :: "nat \<Rightarrow> (Lod \<Rightarrow> Lod) \<Rightarrow> State \<Rightarrow> State" where
  "update_lod lod_index f st = st\<lparr>lods := (lods st)(lod_index := f (lods st lod_index))\<rparr>"

definition update_mesh_block :: "Vector3i \<Rightarrow> (MeshBlockState \<Rightarrow> MeshBlockState) \<Rightarrow> Lod \<Rightarrow> Lod" where
  "update_mesh_block bpos f lod =
     (case mesh_map lod bpos of
        None \<Rightarrow> lod
      | Some mesh_block \<Rightarrow> lod\<lparr>mesh_map := (mesh_map lod)(bpos \<mapsto> f mesh_block)\<rparr>)"

section \<open>The mesh activation engine\<close>

definition get_child_position_from_first_sibling :: "Vector3i \<Rightarrow> nat \<Rightarrow> Vector3i" where
  "get_child_position_from_first_sibling first_sibling_position child_index =
     v_add first_sibling_position
       (int (child_index AND 1), int (drop_bit 1 (child_index AND 2)),
        int (drop_bit 2 (child_index AND 4)))"

definition get_child_position :: "Vector3i \<Rightarrow> nat \<Rightarrow> Vector3i" where
  "get_child_position parent_position child_index =
     get_child_position_from_first_sibling (v_mul parent_position 2) child_index"

definition activate_mesh_block :: "nat \<Rightarrow> Vector3i \<Rightarrow> State \<Rightarrow> State" where
  "activate_mesh_block lod_index bpos =
     update_lod lod_index (\<lambda>lod.
       (update_mesh_block bpos (\<lambda>mesh_block. mesh_block\<lparr>active := True\<rparr>) lod)
         \<lparr>mesh_blocks_to_activate := mesh_blocks_to_activate lod @ [bpos]\<rparr>)"

definition deactivate_mesh_block :: "nat \<Rightarrow> Vector3i \<Rightarrow> State \<Rightarrow> State" where
  "deactivate_mesh_block lod_index bpos =
     update_lod lod_index (\<lambda>lod.
       (update_mesh_block bpos (\<lambda>mesh_block. mesh_block\<lparr>active := False\<rparr>) lod)
         \<lparr>mesh_blocks_to_deactivate := mesh_blocks_to_deactivate lod @ [bpos]\<rparr>)"

text \<open>
  The loop over the eight siblings that leaves at the first sibling that is missing from
  the mesh map or not loaded.
\<close>

definition all_siblings_loaded :: "State \<Rightarrow> nat \<Rightarrow> Vector3i \<Rightarrow> bool" where
  "all_siblings_loaded st lod_index parent_bpos =
     list_all (\<lambda>sibling_index.
         case mesh_map (lods st lod_index) (get_child_position parent_bpos sibling_index) of
           None \<Rightarrow> False
         | Some sibling \<Rightarrow> loaded sibling)
       [0..<8]"

text \<open>
  \<^verbatim>\<open>update_mesh_block_load\<close>. The recursion descends one LOD at each call. In the loop
  that shows the siblings, the source computes the position of the child to visit from
  \<open>sibling_index\<close>, and the model does the same.
\<close>

function update_mesh_block_load :: "State \<Rightarrow> Vector3i \<Rightarrow> nat \<Rightarrow> nat \<Rightarrow> State" where
  "update_mesh_block_load st bpos lod_index lod_count =
     (case mesh_map (lods st lod_index) bpos of
        None \<Rightarrow> st
      | Some mesh_block \<Rightarrow>
          if \<not> loaded mesh_block then st
          else if lod_index + 1 = lod_count then
            (let st1 = (if \<not> active mesh_block then activate_mesh_block lod_index bpos st else st)
             in if 0 < lod_index
                then fold (\<lambda>child_index s.
                        update_mesh_block_load s (get_child_position bpos child_index)
                          (lod_index - 1) lod_count)
                      [0..<8] st1
                else st1)
          else
            (case mesh_map (lods st (lod_index + 1)) (v_shr bpos 1) of
               None \<Rightarrow> st
             | Some parent_mesh_block \<Rightarrow>
                 if active parent_mesh_block \<and> all_siblings_loaded st lod_index (v_shr bpos 1)
                 then fold (\<lambda>sibling_index s.
                        let sibling_bpos = get_child_position (v_shr bpos 1) sibling_index;
                            s1 = activate_mesh_block lod_index sibling_bpos s
                        in if 0 < lod_index
                           then fold (\<lambda>child_index s2.
                                   update_mesh_block_load s2
                                     (get_child_position sibling_bpos sibling_index)
                                     (lod_index - 1) lod_count)
                                 [0..<8] s1
                           else s1)
                      [0..<8] (deactivate_mesh_block (lod_index + 1) (v_shr bpos 1) st)
                 else st))"
  by pat_completeness auto
termination
  by (relation "measure (\<lambda>(st, bpos, lod_index, lod_count). lod_index)") auto

declare update_mesh_block_load.simps [simp del]


section \<open>The streaming differ: mesh blocks\<close>

text \<open>
  Modelled from the spec: the fields of \<^verbatim>\<open>VoxelLodTerrainUpdateData::Settings\<close> that the
  streaming code reads. \<open>lod_distance_ceil\<close> is the float \<open>lod_distance\<close> after
  \<^verbatim>\<open>static_cast<int>(Math::ceil(...))\<close>; \<open>settings_view_distance_voxels\<close> is the field
  \<open>view_distance_voxels\<close> of the settings.
\<close>

record Settings =
  mesh_block_size_po2 :: nat
  lod_distance_ceil :: int
  settings_view_distance_voxels :: int

text \<open>The callback of \<open>for_each_cell\<close> for a cell that enters a viewer's mesh box.\<close>

definition add_mesh_cell :: "bool \<Rightarrow> Vector3i \<Rightarrow> Lod \<Rightarrow> Lod" where
  "add_mesh_cell is_full_load_mode bpos lod =
     (let lod1 =
        (case mesh_map lod bpos of
           None \<Rightarrow>
             (if is_full_load_mode
              then lod\<lparr>mesh_map := (mesh_map lod)
                         (bpos \<mapsto> new_MeshBlockState\<lparr>state := MESH_UPDATE_NOT_SENT\<rparr>),
                       mesh_blocks_pending_update := mesh_blocks_pending_update lod @ [bpos]\<rparr>
              else lod\<lparr>mesh_map := (mesh_map lod)(bpos \<mapsto> new_MeshBlockState)\<rparr>)
         | Some mesh_block \<Rightarrow> lod)
      in update_mesh_block bpos
           (\<lambda>mesh_block. mesh_block\<lparr>mesh_viewers := refcount_add (mesh_viewers mesh_block),
              collision_viewers := refcount_add (collision_viewers mesh_block)\<rparr>)
           lod1)"

text \<open>The callback of \<open>for_each_cell\<close> for a cell that leaves a viewer's mesh box.\<close>

definition remove_mesh_cell :: "Vector3i \<Rightarrow> Lod \<Rightarrow> Lod" where
  "remove_mesh_cell bpos lod =
     (case mesh_map lod bpos of
        None \<Rightarrow> lod
      | Some mesh_block \<Rightarrow>
          (let mesh_block1 = mesh_block\<lparr>mesh_viewers := refcount_remove (mesh_viewers mesh_block),
                 collision_viewers := refcount_remove (collision_viewers mesh_block)\<rparr>
           in if mesh_viewers mesh_block1 = 0 \<and> collision_viewers mesh_block1 = 0
              then lod\<lparr>mesh_map := (mesh_map lod)(bpos := None),
                       mesh_blocks_to_unload := mesh_blocks_to_unload lod @ [bpos]\<rparr>
              else lod\<lparr>mesh_map := (mesh_map lod)(bpos \<mapsto> mesh_block1)\<rparr>))"

text \<open>
  The callback that shows a parent when children are removed: \<open>lod\<close> is the LOD of the
  children, read after the removal, \<open>parent_lod\<close> the one of the parent.
\<close>

definition show_parent :: "Lod \<Rightarrow> Vector3i \<Rightarrow> Lod \<Rightarrow> Lod" where
  "show_parent lod bpos parent_lod =
     (case mesh_map parent_lod bpos of
        None \<Rightarrow> parent_lod
      | Some mesh_block \<Rightarrow>
          if \<not> active mesh_block
          then (case mesh_map lod (v_shl bpos 1) of
                  Some child_mesh0 \<Rightarrow> parent_lod
                | None \<Rightarrow>
                    parent_lod\<lparr>mesh_map := (mesh_map parent_lod)
                                 (bpos \<mapsto> mesh_block\<lparr>active := True\<rparr>),
                               mesh_blocks_to_activate :=
                                 mesh_blocks_to_activate parent_lod @ [bpos]\<rparr>)
          else parent_lod)"

text \<open>The callback of \<open>difference\<close> for a box of cells out of range.\<close>

definition remove_out_of_range_box :: "nat \<Rightarrow> nat \<Rightarrow> Box3i \<Rightarrow> State \<Rightarrow> State" where
  "remove_out_of_range_box lod_index lod_count out_of_range_box st =
     (let st1 = update_lod lod_index (for_each_cell out_of_range_box remove_mesh_cell) st;
          parent_lod_index = lod_index + 1
      in if parent_lod_index < lod_count
         then (let parent_box = \<lparr>pos = v_shr (pos out_of_range_box) 1,
                                  bsize = v_shr (bsize out_of_range_box) 1\<rparr>
               in update_lod parent_lod_index
                    (for_each_cell parent_box (show_parent (lods st1 lod_index))) st1)
         else st1)"

text \<open>One iteration of the loop over the LODs, after the test that leaves the loop.\<close>

definition process_mesh_lod ::
  "nat \<Rightarrow> bool \<Rightarrow> bool \<Rightarrow> PairedViewer \<Rightarrow> nat \<Rightarrow> State \<Rightarrow> State" where
  "process_mesh_lod lod_count is_full_load_mode can_load paired_viewer lod_index st =
     (let new_mesh_box = mesh_box_per_lod (vstate paired_viewer) lod_index;
          prev_mesh_box = mesh_box_per_lod (prev_state paired_viewer) lod_index;
          st2 =
            (if prev_mesh_box \<noteq> new_mesh_box
             then (let st1 =
                         (if can_load
                          then fold (\<lambda>box_to_add.
                                  update_lod lod_index
                                    (for_each_cell box_to_add (add_mesh_cell is_full_load_mode)))
                                 (difference new_mesh_box prev_mesh_box) st
                          else st)
                   in fold (remove_out_of_range_box lod_index lod_count)
                        (difference prev_mesh_box new_mesh_box) st1)
             else st)
      in update_lod lod_index
           (\<lambda>lod. lod\<lparr>mesh_blocks_pending_update :=
               fst (unordered_remove_if (\<lambda>bpos u. (\<not> contains new_mesh_box bpos, u))
                      (mesh_blocks_pending_update lod) ())\<rparr>)
           st2)"

text \<open>
  The loop over the LODs runs from \<open>lod_count - 1\<close> down to \<open>0\<close> and leaves at the first
  LOD where neither the new nor the previous box intersects the bounds. The first argument
  counts the LODs that remain. The assertions under \<^verbatim>\<open>DEV_ENABLED\<close> are not part of the
  model.
\<close>

fun mesh_lods_loop ::
  "nat \<Rightarrow> Settings \<Rightarrow> Box3i \<Rightarrow> nat \<Rightarrow> bool \<Rightarrow> bool \<Rightarrow> PairedViewer \<Rightarrow> State \<Rightarrow> State" where
  "mesh_lods_loop 0 settings bounds_in_voxels lod_count is_full_load_mode can_load
     paired_viewer st = st"
| "mesh_lods_loop (Suc lod_index) settings bounds_in_voxels lod_count is_full_load_mode can_load
     paired_viewer st =
     (let bounds_in_mesh_blocks =
            downscaled bounds_in_voxels (2 ^ (mesh_block_size_po2 settings + lod_index))
      in if \<not> intersects (mesh_box_per_lod (vstate paired_viewer) lod_index) bounds_in_mesh_blocks
            \<and> \<not> intersects (mesh_box_per_lod (prev_state paired_viewer) lod_index)
                  bounds_in_mesh_blocks
         then st
         else mesh_lods_loop lod_index settings bounds_in_voxels lod_count is_full_load_mode
                can_load paired_viewer
                (process_mesh_lod lod_count is_full_load_mode can_load paired_viewer lod_index
                   st))"

definition process_mesh_blocks_sliding_box ::
  "State \<Rightarrow> Settings \<Rightarrow> Box3i \<Rightarrow> nat \<Rightarrow> bool \<Rightarrow> bool \<Rightarrow> State" where
  "process_mesh_blocks_sliding_box st settings bounds_in_voxels lod_count is_full_load_mode
     can_load =
     fold (mesh_lods_loop lod_count settings bounds_in_voxels lod_count is_full_load_mode
             can_load)
       (paired_viewers st) st"

section \<open>The streaming differ: data blocks\<close>

text \<open>
  Modelled from the spec: the data grid \<^verbatim>\<open>VoxelData\<close> (declared in \<^verbatim>\<open>storage/voxel_data.h\<close>,
  which is not among the sources). A data block holds its view count and its modified
  flag; the voxel payload is left out. \<open>view_area\<close> increments the view count of the cells
  of a box that hold a block and reports the others as missing. \<open>unview_area\<close> decrements
  the view counts; a block whose count reaches zero is removed, reported as found, and
  handed over for saving when it was modified; a cell without a block is reported as
  missing.
\<close>

record DataBlock =
  view_count :: nat
  modified_flag :: bool

record VoxelData =
  data_map :: "nat \<Rightarrow> Vector3i \<rightharpoonup> DataBlock"
  block_size_po2 :: nat
  data_lod_count :: nat
  bounds :: Box3i
  streaming_enabled :: bool
  full_load_completed :: bool

definition view_cell ::
  "nat \<Rightarrow> Vector3i \<Rightarrow> VoxelData \<times> Vector3i list \<Rightarrow> VoxelData \<times> Vector3i list" where
  "view_cell lod_index bpos = (\<lambda>(data, missing).
     case data_map data lod_index bpos of
       None \<Rightarrow> (data, missing @ [bpos])
     | Some block \<Rightarrow>
         (data\<lparr>data_map := (data_map data)(lod_index := (data_map data lod_index)
             (bpos \<mapsto> block\<lparr>view_count := refcount_add (view_count block)\<rparr>))\<rparr>, missing))"

definition view_area ::
  "Box3i \<Rightarrow> nat \<Rightarrow> VoxelData \<times> Vector3i list \<Rightarrow> VoxelData \<times> Vector3i list" where
  "view_area box lod_index = for_each_cell box (view_cell lod_index)"

record Unviewed =
  unviewed_data :: VoxelData
  found_blocks_positions :: "Vector3i list"
  missing_blocks :: "Vector3i list"
  to_save :: "BlockLocation list"

definition unview_cell :: "nat \<Rightarrow> Vector3i \<Rightarrow> Unviewed \<Rightarrow> Unviewed" where
  "unview_cell lod_index bpos u =
     (let data = unviewed_data u
      in case data_map data lod_index bpos of
           None \<Rightarrow> u\<lparr>missing_blocks := missing_blocks u @ [bpos]\<rparr>
         | Some block \<Rightarrow>
             if refcount_remove (view_count block) = 0
             then u\<lparr>unviewed_data := data\<lparr>data_map := (data_map data)
                        (lod_index := (data_map data lod_index)(bpos := None))\<rparr>,
                    found_blocks_positions := found_blocks_positions u @ [bpos],
                    to_save := to_save u
                      @ (if modified_flag block then [(bpos, lod_index)] else [])\<rparr>
             else u\<lparr>unviewed_data := data\<lparr>data_map := (data_map data)
                        (lod_index := (data_map data lod_index)
                           (bpos \<mapsto> block\<lparr>view_count := refcount_remove (view_count block)\<rparr>))\<rparr>\<rparr>)"

definition unview_area :: "Box3i \<Rightarrow> nat \<Rightarrow> Unviewed \<Rightarrow> Unviewed" where
  "unview_area box lod_index = for_each_cell box (unview_cell lod_index)"

text \<open>
  What one call of \<^verbatim>\<open>process_data_blocks_sliding_box\<close> works on: the streaming state, the
  data grid and the two output vectors.
\<close>

record DataPass =
  pass_state :: State
  pass_data :: VoxelData
  blocks_to_save :: "BlockLocation list"
  data_blocks_to_load :: "BlockLocation list"

text \<open>
  A loop body either goes on or executes the \<^verbatim>\<open>return\<close> statement of the function.
\<close>

datatype 'a flow = Continue 'a | Return 'a

definition add_loading_block :: "Vector3i \<Rightarrow> Lod \<Rightarrow> bool \<times> Lod" where
  "add_loading_block position lod =
     (case loading_blocks lod position of
        None \<Rightarrow> (True, lod\<lparr>loading_blocks := (loading_blocks lod)
                     (position \<mapsto> \<lparr>viewers = refcount_add 0\<rparr>)\<rparr>)
      | Some loading_block \<Rightarrow>
          (False, lod\<lparr>loading_blocks := (loading_blocks lod)
             (position \<mapsto> loading_block\<lparr>viewers := refcount_add (viewers loading_block)\<rparr>)\<rparr>))"

text \<open>The loop over the missing blocks of the load phase.\<close>

fun add_loading_blocks ::
  "nat \<Rightarrow> Vector3i list \<Rightarrow> Lod \<times> BlockLocation list \<Rightarrow> Lod \<times> BlockLocation list" where
  "add_loading_blocks lod_index [] acc = acc"
| "add_loading_blocks lod_index (bpos # rest) (lod, to_load) =
     (case add_loading_block bpos lod of
        (True, lod') \<Rightarrow> add_loading_blocks lod_index rest (lod', to_load @ [(bpos, lod_index)])
      | (False, lod') \<Rightarrow> add_loading_blocks lod_index rest (lod', to_load))"

text \<open>
  The removal of the first element equal to \<open>bloc\<close> from \<open>data_blocks_to_load\<close>: it is
  overwritten by the last element, which is popped.
\<close>

fun unordered_remove_first :: "'a \<Rightarrow> 'a list \<Rightarrow> 'a list" where
  "unordered_remove_first bloc [] = []"
| "unordered_remove_first bloc (b # bs) =
     (if b = bloc then (if bs = [] then [] else last bs # butlast bs)
      else b # unordered_remove_first bloc bs)"

text \<open>
  The loop over the missing blocks of the unload phase. A position that is not in
  \<open>loading_blocks\<close> executes \<^verbatim>\<open>return\<close>, which leaves the whole function.
\<close>

fun remove_loading_refs ::
  "nat \<Rightarrow> Vector3i list \<Rightarrow> Lod \<times> BlockLocation list \<Rightarrow> (Lod \<times> BlockLocation list) flow" where
  "remove_loading_refs lod_index [] acc = Continue acc"
| "remove_loading_refs lod_index (bpos # rest) (lod, to_load) =
     (case loading_blocks lod bpos of
        None \<Rightarrow> Return (lod, to_load)
      | Some loading_block \<Rightarrow>
          if refcount_remove (viewers loading_block) = 0
          then remove_loading_refs lod_index rest
                 (lod\<lparr>loading_blocks := (loading_blocks lod)(bpos := None)\<rparr>,
                  unordered_remove_first (bpos, lod_index) to_load)
          else remove_loading_refs lod_index rest
                 (lod\<lparr>loading_blocks := (loading_blocks lod)
                    (bpos \<mapsto> loading_block\<lparr>viewers := refcount_remove (viewers loading_block)\<rparr>)\<rparr>,
                  to_load))"

definition load_phase :: "Box3i \<Rightarrow> Box3i \<Rightarrow> nat \<Rightarrow> DataPass \<Rightarrow> DataPass" where
  "load_phase new_data_box prev_data_box lod_index dp =
     (let (data', missing) =
            fold (\<lambda>box_to_load. view_area box_to_load lod_index)
              (difference new_data_box prev_data_box) (pass_data dp, []);
          (lod', to_load') =
            add_loading_blocks lod_index missing
              (lods (pass_state dp) lod_index, data_blocks_to_load dp)
      in dp\<lparr>pass_state := update_lod lod_index (\<lambda>_. lod') (pass_state dp),
            pass_data := data', data_blocks_to_load := to_load'\<rparr>)"

definition unload_phase :: "Box3i \<Rightarrow> Box3i \<Rightarrow> nat \<Rightarrow> DataPass \<Rightarrow> DataPass flow" where
  "unload_phase new_data_box prev_data_box lod_index dp =
     (let u = fold (\<lambda>box_to_remove. unview_area box_to_remove lod_index)
                (difference prev_data_box new_data_box)
                \<lparr>unviewed_data = pass_data dp, found_blocks_positions = [],
                  missing_blocks = [], to_save = blocks_to_save dp\<rparr>;
          lod1 = fold (\<lambda>bpos lod. lod\<lparr>loading_blocks := (loading_blocks lod)(bpos := None)\<rparr>)
                   (found_blocks_positions u) (lods (pass_state dp) lod_index);
          finish = (\<lambda>(lod', to_load').
             dp\<lparr>pass_state := update_lod lod_index (\<lambda>_. lod') (pass_state dp),
                pass_data := unviewed_data u, blocks_to_save := to_save u,
                data_blocks_to_load := to_load'\<rparr>)
      in case remove_loading_refs lod_index (missing_blocks u) (lod1, data_blocks_to_load dp) of
           Continue r \<Rightarrow> Continue (finish r)
         | Return r \<Rightarrow> Return (finish r))"

text \<open>
  The predicate of the data differ that cancels the pending mesh updates outside of the
  box: it sets the state of a cancelled mesh block that is still in the mesh map back to
  \<open>MESH_NEED_UPDATE\<close>.
\<close>

definition cancel_outside ::
  "Box3i \<Rightarrow> Vector3i \<Rightarrow> (Vector3i \<rightharpoonup> MeshBlockState) \<Rightarrow> bool \<times> (Vector3i \<rightharpoonup> MeshBlockState)" where
  "cancel_outside mesh_box bpos m =
     (if contains mesh_box bpos then (False, m)
      else (True, case m bpos of
                    None \<Rightarrow> m
                  | Some mesh_block \<Rightarrow> m(bpos \<mapsto> mesh_block\<lparr>state := MESH_NEED_UPDATE\<rparr>)))"

definition cancel_data_updates :: "Settings \<Rightarrow> nat \<Rightarrow> Box3i \<Rightarrow> Lod \<Rightarrow> Lod" where
  "cancel_data_updates settings data_block_size_po2 new_data_box lod =
     (let mesh_block_size = (2::int) ^ mesh_block_size_po2 settings;
          data_block_size = (2::int) ^ data_block_size_po2;
          padded_new_box = padded new_data_box (- 1);
          mesh_box = (if mesh_block_size > data_block_size
                      then downscaled_inner padded_new_box (mesh_block_size div data_block_size)
                      else padded_new_box);
          (pending, m) = unordered_remove_if (cancel_outside mesh_box)
                           (mesh_blocks_pending_update lod) (mesh_map lod)
      in lod\<lparr>mesh_blocks_pending_update := pending, mesh_map := m\<rparr>)"

text \<open>One iteration of the loop over the LODs, after the test that leaves the loop.\<close>

definition process_data_lod ::
  "Settings \<Rightarrow> bool \<Rightarrow> PairedViewer \<Rightarrow> nat \<Rightarrow> DataPass \<Rightarrow> DataPass flow" where
  "process_data_lod settings can_load paired_viewer lod_index dp =
     (let new_data_box = data_box_per_lod (vstate paired_viewer) lod_index;
          prev_data_box = data_box_per_lod (prev_state paired_viewer) lod_index;
          diffed =
            (if prev_data_box \<noteq> new_data_box
             then unload_phase new_data_box prev_data_box lod_index
                    (if can_load then load_phase new_data_box prev_data_box lod_index dp else dp)
             else Continue dp)
      in case diffed of
           Return dp' \<Rightarrow> Return dp'
         | Continue dp' \<Rightarrow>
             Continue (dp'\<lparr>pass_state := update_lod lod_index
                 (cancel_data_updates settings (block_size_po2 (pass_data dp)) new_data_box)
                 (pass_state dp')\<rparr>))"

definition bounds_in_data_blocks :: "Box3i \<Rightarrow> nat \<Rightarrow> Box3i" where
  "bounds_in_data_blocks bounds_in_voxels lod_data_block_size_po2 =
     \<lparr>pos = v_shr (pos bounds_in_voxels) lod_data_block_size_po2,
      bsize = v_shr (bsize bounds_in_voxels) lod_data_block_size_po2\<rparr>"

fun data_lods_loop ::
  "nat \<Rightarrow> Settings \<Rightarrow> bool \<Rightarrow> PairedViewer \<Rightarrow> DataPass \<Rightarrow> DataPass flow" where
  "data_lods_loop 0 settings can_load paired_viewer dp = Continue dp"
| "data_lods_loop (Suc lod_index) settings can_load paired_viewer dp =
     (let lod_bounds = bounds_in_data_blocks (bounds (pass_data dp))
                         (block_size_po2 (pass_data dp) + lod_index)
      in if \<not> intersects (data_box_per_lod (vstate paired_viewer) lod_index) lod_bounds
            \<and> \<not> intersects (data_box_per_lod (prev_state paired_viewer) lod_index) lod_bounds
         then Continue dp
         else (case process_data_lod settings can_load paired_viewer lod_index dp of
                 Return dp' \<Rightarrow> Return dp'
               | Continue dp' \<Rightarrow> data_lods_loop lod_index settings can_load paired_viewer dp'))"

fun data_viewers_loop ::
  "PairedViewer list \<Rightarrow> Settings \<Rightarrow> nat \<Rightarrow> bool \<Rightarrow> DataPass \<Rightarrow> DataPass flow" where
  "data_viewers_loop [] settings lod_count can_load dp = Continue dp"
| "data_viewers_loop (paired_viewer # rest) settings lod_count can_load dp =
     (case data_lods_loop lod_count settings can_load paired_viewer dp of
        Return dp' \<Rightarrow> Return dp'
      | Continue dp' \<Rightarrow> data_viewers_loop rest settings lod_count can_load dp')"

definition process_data_blocks_sliding_box ::
  "DataPass \<Rightarrow> Settings \<Rightarrow> nat \<Rightarrow> bool \<Rightarrow> DataPass" where
  "process_data_blocks_sliding_box dp settings lod_count can_load =
     (if \<not> streaming_enabled (pass_data dp) then dp
      else (case data_viewers_loop (paired_viewers (pass_state dp)) settings lod_count
                   can_load dp of
              Return dp' \<Rightarrow> dp'
            | Continue dp' \<Rightarrow> dp'))"

section \<open>Pairing viewers and planning their boxes\<close>

text \<open>
  Modelled from the spec: a viewer of \<^verbatim>\<open>VoxelEngine\<close> (not among the sources) is taken
  after the floating-point conversions of \<^verbatim>\<open>process_viewers\<close>: \<open>view_distance_scaled\<close>
  is \<^verbatim>\<open>static_cast<int>(view_distance * view_distance_scale)\<close> and \<open>local_position\<close> is
  \<^verbatim>\<open>floor_to_int(world_to_local_transform.xform(world_position))\<close>.
\<close>

record Viewer =
  view_distance_scaled :: int
  local_position :: Vector3i
  require_collisions :: bool
  require_visuals :: bool

text \<open>The division of C++ on \<^verbatim>\<open>int\<close> truncates towards zero.\<close>

definition c_div :: "int \<Rightarrow> int \<Rightarrow> int" where
  "c_div a b = (if (a < 0) = (b < 0) then \<bar>a\<bar> div \<bar>b\<bar> else - (\<bar>a\<bar> div \<bar>b\<bar>))"

definition get_lod_distance_in_mesh_chunks :: "int \<Rightarrow> int \<Rightarrow> int" where
  "get_lod_distance_in_mesh_chunks lod_distance_in_voxels mesh_block_size =
     max (c_div lod_distance_in_voxels mesh_block_size) 1"

definition new_ViewerBoxState :: ViewerBoxState where
  "new_ViewerBoxState = \<lparr>view_distance_voxels = 0, local_position_voxels = (0, 0, 0),
     requires_collisions = False, requires_meshes = False,
     data_box_per_lod = (\<lambda>_. Box3i_zero), mesh_box_per_lod = (\<lambda>_. Box3i_zero)\<rparr>"

definition new_PairedViewer :: "ViewerID \<Rightarrow> PairedViewer" where
  "new_PairedViewer i = \<lparr>viewer_id = i, vstate = new_ViewerBoxState,
     prev_state = new_ViewerBoxState\<rparr>"

fun find_index :: "PairedViewer list \<Rightarrow> ViewerID \<Rightarrow> nat option" where
  "find_index [] i = None"
| "find_index (pv # pvs) i =
     (if viewer_id pv = i then Some 0 else map_option Suc (find_index pvs i))"

definition contains_viewer :: "(ViewerID \<times> Viewer) list \<Rightarrow> ViewerID \<Rightarrow> bool" where
  "contains_viewer the_viewers i = (i \<in> set (map fst the_viewers))"

text \<open>
  The body of the loop over the LODs that plans the mesh boxes: the box of \<open>lod_index\<close>
  from the state of the viewer and the box already planned for the child LOD.
\<close>

definition new_mesh_box ::
  "Settings \<Rightarrow> nat \<Rightarrow> Box3i \<Rightarrow> ViewerBoxState \<Rightarrow> nat \<Rightarrow> Box3i \<Rightarrow> Box3i" where
  "new_mesh_box settings lod_count volume_bounds_in_voxels s lod_index child_box =
     (let mesh_block_size = (2::int) ^ mesh_block_size_po2 settings;
          lod_distance_in_mesh_chunks =
            get_lod_distance_in_mesh_chunks (lod_distance_ceil settings) mesh_block_size;
          last_lod_mesh_block_size = mesh_block_size * 2 ^ (lod_count - 1);
          last_lod_distance_in_mesh_chunks =
            max (ceildiv (view_distance_voxels s) last_lod_mesh_block_size)
              lod_distance_in_mesh_chunks;
          lod_mesh_block_size = (2::int) ^ (mesh_block_size_po2 settings + lod_index);
          volume_bounds_in_mesh_blocks = downscaled volume_bounds_in_voxels lod_mesh_block_size;
          ld = (if lod_index = lod_count - 1 then last_lod_distance_in_mesh_chunks
                else lod_distance_in_mesh_chunks);
          base_box = get_base_box_in_chunks (local_position_voxels s)
                       (ld * lod_mesh_block_size) lod_mesh_block_size
                       (lod_index \<noteq> lod_count - 1);
          merged =
            (if 0 < lod_index
             then (let min_box0 = padded \<lparr>pos = v_shr (pos child_box) 1,
                                            bsize = v_shr (bsize child_box) 1\<rparr> 2;
                       min_box = (if lod_index \<noteq> lod_count - 1
                                  then scaled (downscaled min_box0 2) 2 else min_box0)
                   in merge_with base_box min_box)
             else base_box)
      in clipped merged volume_bounds_in_mesh_blocks)"

definition plan_mesh_boxes ::
  "Settings \<Rightarrow> nat \<Rightarrow> Box3i \<Rightarrow> ViewerBoxState \<Rightarrow> (nat \<Rightarrow> Box3i) \<Rightarrow> nat \<Rightarrow> Box3i" where
  "plan_mesh_boxes settings lod_count volume_bounds_in_voxels s boxes =
     fold (\<lambda>lod_index b.
             b(lod_index := new_mesh_box settings lod_count volume_bounds_in_voxels s lod_index
                              (b (lod_index - 1))))
       [0..<lod_count] boxes"

text \<open>The data box that is derived from the mesh box of the same LOD.\<close>

definition data_box_of_mesh_box :: "Settings \<Rightarrow> Box3i \<Rightarrow> nat \<Rightarrow> nat \<Rightarrow> Box3i \<Rightarrow> Box3i" where
  "data_box_of_mesh_box settings volume_bounds_in_voxels data_block_size_po2 lod_index mesh_box =
     (let mesh_to_data_factor =
            ((2::int) ^ mesh_block_size_po2 settings) div (2 ^ data_block_size_po2);
          volume_bounds_in_data_blocks =
            bounds_in_data_blocks volume_bounds_in_voxels (data_block_size_po2 + lod_index)
      in clipped (padded \<lparr>pos = v_mul (pos mesh_box) mesh_to_data_factor,
                           bsize = v_mul (bsize mesh_box) mesh_to_data_factor\<rparr> 1)
           volume_bounds_in_data_blocks)"

text \<open>The data box of a viewer that requires no mesh.\<close>

definition data_box_without_mesh ::
  "Settings \<Rightarrow> nat \<Rightarrow> Box3i \<Rightarrow> nat \<Rightarrow> ViewerBoxState \<Rightarrow> nat \<Rightarrow> Box3i" where
  "data_box_without_mesh settings lod_count volume_bounds_in_voxels data_block_size_po2 s
     lod_index =
     (let mesh_block_size = (2::int) ^ mesh_block_size_po2 settings;
          mesh_to_data_factor = mesh_block_size div (2 ^ data_block_size_po2);
          lod_distance_in_data_chunks =
            get_lod_distance_in_mesh_chunks (lod_distance_ceil settings) mesh_block_size
              * mesh_to_data_factor;
          last_lod_distance_in_data_chunks =
            mesh_block_size * 2 ^ (lod_count - 1) * mesh_to_data_factor;
          lod_data_block_size = (2::int) ^ (data_block_size_po2 + lod_index);
          ld = (if lod_index = lod_count - 1 then lod_distance_in_data_chunks
                else last_lod_distance_in_data_chunks)
      in clipped (get_base_box_in_chunks (local_position_voxels s) (ld * lod_data_block_size)
                    lod_data_block_size (lod_index \<noteq> lod_count - 1))
           (bounds_in_data_blocks volume_bounds_in_voxels (data_block_size_po2 + lod_index)))"

text \<open>
  The body of the loop of \<^verbatim>\<open>process_viewers\<close> over the viewers, on the state of the paired
  viewer, after that state was copied to the previous state: \<open>viewer_state\<close> is the
  state with the fields that are read from the viewer, \<open>process_viewer\<close> plans the boxes.
\<close>

definition viewer_state :: "Settings \<Rightarrow> bool \<Rightarrow> Viewer \<Rightarrow> ViewerBoxState \<Rightarrow> ViewerBoxState" where
  "viewer_state settings can_mesh viewer s0 =
     s0\<lparr>view_distance_voxels :=
          min (view_distance_scaled viewer) (settings_view_distance_voxels settings),
        local_position_voxels := local_position viewer,
        requires_collisions := require_collisions viewer,
        requires_meshes := (require_visuals viewer \<and> can_mesh)\<rparr>"

definition process_viewer ::
  "Settings \<Rightarrow> nat \<Rightarrow> Box3i \<Rightarrow> nat \<Rightarrow> bool \<Rightarrow> Viewer \<Rightarrow> ViewerBoxState \<Rightarrow> ViewerBoxState" where
  "process_viewer settings lod_count volume_bounds_in_voxels data_block_size_po2 can_mesh
     viewer s0 =
     (let s = viewer_state settings can_mesh viewer s0
      in if requires_collisions s \<or> requires_meshes s
         then (let mesh_boxes = plan_mesh_boxes settings lod_count volume_bounds_in_voxels s
                                  (mesh_box_per_lod s)
               in s\<lparr>mesh_box_per_lod := mesh_boxes,
                    data_box_per_lod :=
                      fold (\<lambda>lod_index b.
                              b(lod_index := data_box_of_mesh_box settings
                                  volume_bounds_in_voxels data_block_size_po2 lod_index
                                  (mesh_boxes lod_index)))
                        [0..<lod_count] (data_box_per_lod s)\<rparr>)
         else s\<lparr>mesh_box_per_lod :=
                   fold (\<lambda>lod_index b. b(lod_index := Box3i_zero)) [0..<lod_count]
                     (mesh_box_per_lod s),
                 data_box_per_lod :=
                   fold (\<lambda>lod_index b.
                           b(lod_index := data_box_without_mesh settings lod_count
                               volume_bounds_in_voxels data_block_size_po2 s lod_index))
                     [0..<lod_count] (data_box_per_lod s)\<rparr>)"

text \<open>
  A paired viewer whose viewer is gone: its view distance becomes zero, the state is
  copied to the previous state, and the boxes of all LODs are reset.
\<close>

definition destroy_viewer :: "PairedViewer \<Rightarrow> PairedViewer" where
  "destroy_viewer pv =
     (let s = (vstate pv)\<lparr>view_distance_voxels := 0\<rparr>
      in pv\<lparr>prev_state := s,
            vstate := s\<lparr>data_box_per_lod := (\<lambda>_. Box3i_zero),
                       mesh_box_per_lod := (\<lambda>_. Box3i_zero)\<rparr>\<rparr>)"

definition pair_viewer ::
  "Settings \<Rightarrow> nat \<Rightarrow> Box3i \<Rightarrow> nat \<Rightarrow> bool \<Rightarrow> ViewerID \<times> Viewer \<Rightarrow> PairedViewer list
     \<Rightarrow> PairedViewer list" where
  "pair_viewer settings lod_count volume_bounds_in_voxels data_block_size_po2 can_mesh =
     (\<lambda>(i, viewer) pvs.
        let (paired_viewer_index, pvs1) =
              (case find_index pvs i of
                 None \<Rightarrow> (length pvs, pvs @ [new_PairedViewer i])
               | Some k \<Rightarrow> (k, pvs));
            pv = pvs1 ! paired_viewer_index
        in pvs1[paired_viewer_index :=
             pv\<lparr>prev_state := vstate pv,
                vstate := process_viewer settings lod_count volume_bounds_in_voxels
                            data_block_size_po2 can_mesh viewer (vstate pv)\<rparr>])"

text \<open>
  \<^verbatim>\<open>process_viewers\<close> gives the paired viewers and the indices of those to remove, in
  ascending order.
\<close>

definition process_viewers ::
  "PairedViewer list \<Rightarrow> Settings \<Rightarrow> nat \<Rightarrow> (ViewerID \<times> Viewer) list \<Rightarrow> Box3i \<Rightarrow> nat \<Rightarrow> bool
     \<Rightarrow> PairedViewer list \<times> nat list" where
  "process_viewers pvs settings lod_count the_viewers volume_bounds_in_voxels data_block_size_po2
     can_mesh =
     (let destroyed = (\<lambda>pv. \<not> contains_viewer the_viewers (viewer_id pv));
          pvs1 = map (\<lambda>pv. if destroyed pv then destroy_viewer pv else pv) pvs;
          unpaired_viewers_to_remove = filter (\<lambda>k. destroyed (pvs ! k)) [0..<length pvs]
      in (fold (pair_viewer settings lod_count volume_bounds_in_voxels data_block_size_po2
                  can_mesh) the_viewers pvs1,
          unpaired_viewers_to_remove))"

definition remove_unpaired_viewers :: "nat list \<Rightarrow> PairedViewer list \<Rightarrow> PairedViewer list" where
  "remove_unpaired_viewers unpaired_viewers_to_remove pvs =
     fold (\<lambda>vi l. butlast (l[vi := last l])) (rev unpaired_viewers_to_remove) pvs"

section \<open>Load completions and the update tick\<close>

definition has_all_blocks_in_area :: "VoxelData \<Rightarrow> Box3i \<Rightarrow> nat \<Rightarrow> bool" where
  "has_all_blocks_in_area data box lod_index =
     list_all (\<lambda>bpos. data_map data lod_index bpos \<noteq> None) (cells box)"

text \<open>
  The callback of \<^verbatim>\<open>process_loaded_data_blocks_trigger_meshing\<close> for a data block next to a
  loaded one. It works on the LOD and on the mesh positions already checked at that LOD.
  \<open>data_to_mesh_shift\<close> is \<open>mesh_block_size_po2 - block_size_po2\<close>, taken as a natural
  number: mesh blocks are not smaller than data blocks.
\<close>

definition trigger_meshing_cell ::
  "VoxelData \<Rightarrow> nat \<Rightarrow> nat \<Rightarrow> Box3i \<Rightarrow> Vector3i \<Rightarrow> Lod \<times> Vector3i list \<Rightarrow> Lod \<times> Vector3i list" where
  "trigger_meshing_cell data data_to_mesh_shift lod_index lod_bounds data_bpos =
     (\<lambda>(lod, checked_mesh_blocks).
        let mesh_block_pos = v_shr data_bpos data_to_mesh_shift
        in if mesh_block_pos \<in> set checked_mesh_blocks then (lod, checked_mesh_blocks)
           else
            (case mesh_map lod mesh_block_pos of
               None \<Rightarrow> (lod, mesh_block_pos # checked_mesh_blocks)
             | Some mesh_block \<Rightarrow>
                 if state mesh_block \<noteq> MESH_NEED_UPDATE \<and> state mesh_block \<noteq> MESH_NEVER_UPDATED
                 then (lod, mesh_block_pos # checked_mesh_blocks)
                 else
                  (let data_box =
                         clipped \<lparr>pos = v_sub (v_shl mesh_block_pos data_to_mesh_shift) (1, 1, 1),
                                  bsize = create (2 ^ data_to_mesh_shift + 2)\<rparr> lod_bounds
                   in if has_all_blocks_in_area data data_box lod_index
                      then (lod\<lparr>mesh_blocks_pending_update :=
                                   mesh_blocks_pending_update lod @ [mesh_block_pos],
                                 mesh_map := (mesh_map lod)
                                   (mesh_block_pos \<mapsto> mesh_block\<lparr>state := MESH_UPDATE_NOT_SENT\<rparr>)\<rparr>,
                            mesh_block_pos # checked_mesh_blocks)
                      else (lod, mesh_block_pos # checked_mesh_blocks))))"

definition trigger_meshing_block ::
  "VoxelData \<Rightarrow> Settings \<Rightarrow> Box3i \<Rightarrow> BlockLocation
     \<Rightarrow> State \<times> (nat \<Rightarrow> Vector3i list) \<Rightarrow> State \<times> (nat \<Rightarrow> Vector3i list)" where
  "trigger_meshing_block data settings bounds_in_voxels = (\<lambda>(position, lod_index) (st, checked).
     let lod_bounds = bounds_in_data_blocks bounds_in_voxels (block_size_po2 data + lod_index);
         data_neighboring =
           clipped \<lparr>pos = v_sub position (1, 1, 1), bsize = (3, 3, 3)\<rparr> lod_bounds;
         (lod', checked') =
           for_each_cell data_neighboring
             (trigger_meshing_cell data (mesh_block_size_po2 settings - block_size_po2 data)
                lod_index lod_bounds)
             (lods st lod_index, checked lod_index)
     in (update_lod lod_index (\<lambda>_. lod') st, checked(lod_index := checked')))"

definition process_loaded_data_blocks_trigger_meshing ::
  "VoxelData \<Rightarrow> State \<Rightarrow> Settings \<Rightarrow> Box3i \<Rightarrow> State" where
  "process_loaded_data_blocks_trigger_meshing data st settings bounds_in_voxels =
     (if \<not> streaming_enabled data then st
      else fst (fold (trigger_meshing_block data settings bounds_in_voxels)
                  (loaded_data_blocks st) (st\<lparr>loaded_data_blocks := []\<rparr>, (\<lambda>_. []))))"

text \<open>
  \<^verbatim>\<open>process_loaded_mesh_blocks_trigger_visibility_changes\<close>. The transition masks that
  \<^verbatim>\<open>update_transition_masks\<close> recomputes (not among the sources) are not part of the
  state of the model.
\<close>

definition process_loaded_mesh_blocks_trigger_visibility_changes :: "State \<Rightarrow> nat \<Rightarrow> State" where
  "process_loaded_mesh_blocks_trigger_visibility_changes st lod_count =
     fold (\<lambda>(position, lod_index) s. update_mesh_block_load s position lod_index lod_count)
       (loaded_mesh_blocks st) (st\<lparr>loaded_mesh_blocks := []\<rparr>)"

text \<open>
  \<^verbatim>\<open>process_clipbox_streaming\<close>, one update tick: the viewers are paired and their boxes
  planned, the data blocks and the mesh blocks are diffed, the unpaired viewers are removed
  and the load completions are handled. In full load mode the function returns after the
  planning until the load has completed.
\<close>

definition process_clipbox_streaming ::
  "DataPass \<Rightarrow> (ViewerID \<times> Viewer) list \<Rightarrow> Settings \<Rightarrow> bool \<Rightarrow> bool \<Rightarrow> DataPass" where
  "process_clipbox_streaming dp the_viewers settings can_load can_mesh =
     (let data = pass_data dp;
          lod_count = data_lod_count data;
          bounds_in_voxels = bounds data;
          (pvs, unpaired_viewers_to_remove) =
            process_viewers (paired_viewers (pass_state dp)) settings lod_count the_viewers
              bounds_in_voxels (block_size_po2 data) can_mesh;
          dp1 = dp\<lparr>pass_state := (pass_state dp)\<lparr>paired_viewers := pvs\<rparr>\<rparr>
      in if \<not> streaming_enabled data \<and> \<not> full_load_completed data then dp1
         else
          (let dp2 = (if streaming_enabled data
                      then process_data_blocks_sliding_box dp1 settings lod_count can_load
                      else dp1);
               st3 = process_mesh_blocks_sliding_box (pass_state dp2) settings bounds_in_voxels
                       lod_count (\<not> streaming_enabled data) can_load;
               st4 = st3\<lparr>paired_viewers :=
                           remove_unpaired_viewers unpaired_viewers_to_remove (paired_viewers st3)\<rparr>;
               st5 = (if streaming_enabled data
                      then process_loaded_data_blocks_trigger_meshing (pass_data dp2) st4 settings
                             bounds_in_voxels
                      else st4)
           in dp2\<lparr>pass_state :=
                    process_loaded_mesh_blocks_trigger_visibility_changes st5 lod_count\<rparr>))"

text \<open>
  A box with even position and even size on every axis, and volume bounds whose position
  and size are multiples of the mesh chunk of the last LOD.
\<close>

definition even_box :: "Box3i \<Rightarrow> bool" where
  "even_box b = all_axes (\<lambda>a. even (coord a (pos b)) \<and> even (coord a (bsize b)))"

definition bounds_aligned :: "Settings \<Rightarrow> nat \<Rightarrow> Box3i \<Rightarrow> bool" where
  "bounds_aligned settings lod_count bnds =
     all_axes (\<lambda>a. 2 ^ (mesh_block_size_po2 settings + (lod_count - 1)) dvd coord a (pos bnds)
                 \<and> 2 ^ (mesh_block_size_po2 settings + (lod_count - 1)) dvd coord a (bsize bnds))"

section \<open>The GPU detail-normalmap task\<close>

text \<open>
  \<^verbatim>\<open>GenerateDistanceNormalMapGPUTask::prepare\<close>. Modelled from the spec: the rendering
  device and the engine singleton (not among the sources) are taken as what they answer: a
  resource handle \<open>RID\<close> is a natural number, the null handle is \<open>0\<close>, and \<open>created\<close>
  gives the handle the device returns for each resource the task creates. The contents of
  the buffers and the uniform sets are left out; the compute list is the sequence of the
  commands recorded on it.
\<close>

type_synonym RID = nat

definition is_null :: "RID \<Rightarrow> bool" where
  "is_null rid = (rid = 0)"

datatype gpu_resource =
    Normalmap_texture0 | Normalmap_texture1
  | Mesh_vertices_buffer | Mesh_indices_buffer | Cell_triangles_buffer | Tile_data_buffer
  | Gather_hits_params_buffer | Hit_positions_buffer | Modifier_params_buffer
  | Sd_buffer0 | Sd_buffer1 | Normalmap_params_buffer | Dilation_params_buffer
  | Gather_hits_pipeline | Detail_modifier_pipeline | Detail_normalmap_pipeline
  | Normalmap_dilation_pipeline

record RenderingDevice =
  created :: "gpu_resource \<Rightarrow> RID"
  detail_gather_hits_compute_shader :: RID
  detail_normalmap_compute_shader :: RID
  dilate_normalmap_compute_shader :: RID

record ComputeShader =
  is_valid :: bool
  shader_rid :: RID

record ('v, 'c, 't) GenerateDistanceNormalMapGPUTask =
  mesh_vertices :: "'v list"
  mesh_indices :: "int list"
  cell_triangles :: "'c list"
  tile_data :: "'t list"
  shader :: "ComputeShader option"
  tile_size_pixels :: int
  texture_width :: int
  texture_height :: int

datatype compute_command =
    Compute_list_begin
  | Bind_compute_pipeline RID
  | Dispatch int int int
  | Add_barrier
  | Compute_list_end

datatype prepare_failure =
    No_mesh_vertices | No_mesh_indices | No_cell_triangles | Shader_is_null | Shader_not_valid
  | Null_resource gpu_resource | Null_engine_shader

definition tile_dispatch :: "('v, 'c, 't) GenerateDistanceNormalMapGPUTask \<Rightarrow> compute_command" where
  "tile_dispatch task =
     Dispatch (ceildiv (tile_size_pixels task) 4) (ceildiv (tile_size_pixels task) 4)
       (ceildiv (int (length (tile_data task))) 4)"

definition dilation_dispatch :: "('v, 'c, 't) GenerateDistanceNormalMapGPUTask \<Rightarrow> compute_command" where
  "dilation_dispatch task =
     Dispatch (ceildiv (texture_width task) 8) (ceildiv (texture_height task) 8) 1"

text \<open>
  Every \<^verbatim>\<open>ERR_FAIL_COND\<close> of the source is a branch that fails, in the order of the source;
  a creation the source does not check has no branch.
\<close>

definition prepare ::
  "('v, 'c, 't) GenerateDistanceNormalMapGPUTask \<Rightarrow> RenderingDevice
     \<Rightarrow> prepare_failure + compute_command list" where
  "prepare task rd =
     (if length (mesh_vertices task) = 0 then Inl No_mesh_vertices
      else if length (mesh_indices task) = 0 then Inl No_mesh_indices
      else if length (cell_triangles task) = 0 then Inl No_cell_triangles
      else case shader task of
        None \<Rightarrow> Inl Shader_is_null
      | Some sh \<Rightarrow>
          if \<not> is_valid sh then Inl Shader_not_valid
          else if is_null (created rd Normalmap_texture0) then Inl (Null_resource Normalmap_texture0)
          else if is_null (created rd Normalmap_texture1) then Inl (Null_resource Normalmap_texture1)
          else if is_null (created rd Mesh_vertices_buffer)
            then Inl (Null_resource Mesh_vertices_buffer)
          else if is_null (created rd Mesh_indices_buffer)
            then Inl (Null_resource Mesh_indices_buffer)
          else if is_null (created rd Cell_triangles_buffer)
            then Inl (Null_resource Cell_triangles_buffer)
          else if is_null (created rd Tile_data_buffer) then Inl (Null_resource Tile_data_buffer)
          else if is_null (created rd Gather_hits_params_buffer)
            then Inl (Null_resource Gather_hits_params_buffer)
          else if is_null (created rd Dilation_params_buffer)
            then Inl (Null_resource Dilation_params_buffer)
          else if is_null (detail_gather_hits_compute_shader rd) then Inl Null_engine_shader
          else if is_null (created rd Gather_hits_pipeline)
            then Inl (Null_resource Gather_hits_pipeline)
          else if is_null (created rd Detail_modifier_pipeline)
            then Inl (Null_resource Detail_modifier_pipeline)
          else if is_null (detail_normalmap_compute_shader rd) then Inl Null_engine_shader
          else if is_null (created rd Detail_normalmap_pipeline)
            then Inl (Null_resource Detail_normalmap_pipeline)
          else if is_null (dilate_normalmap_compute_shader rd) then Inl Null_engine_shader
          else if is_null (created rd Normalmap_dilation_pipeline)
            then Inl (Null_resource Normalmap_dilation_pipeline)
          else Inr
            [Compute_list_begin,
             Bind_compute_pipeline (created rd Gather_hits_pipeline), tile_dispatch task,
             Add_barrier,
             Bind_compute_pipeline (created rd Detail_modifier_pipeline), tile_dispatch task,
             Add_barrier,
             Bind_compute_pipeline (created rd Detail_normalmap_pipeline), tile_dispatch task,
             Add_barrier,
             Bind_compute_pipeline (created rd Normalmap_dilation_pipeline),
             dilation_dispatch task,
             Add_barrier,
             dilation_dispatch task,
             Compute_list_end])"

definition checked_resources :: "gpu_resource list" where
  "checked_resources =
     [Normalmap_texture0, Normalmap_texture1, Mesh_vertices_buffer, Mesh_indices_buffer,
      Cell_triangles_buffer, Tile_data_buffer, Gather_hits_params_buffer,
      Dilation_params_buffer, Gather_hits_pipeline, Detail_modifier_pipeline,
      Detail_normalmap_pipeline, Normalmap_dilation_pipeline]"

section \<open>Example states\<close>

definition empty_Lod :: Lod where
  "empty_Lod = \<lparr>mesh_map = Map.empty, loading_blocks = Map.empty,
     mesh_blocks_pending_update = [], mesh_blocks_to_activate = [],
     mesh_blocks_to_deactivate = [], mesh_blocks_to_unload = []\<rparr>"

definition loaded_block :: "bool \<Rightarrow> MeshBlockState" where
  "loaded_block a = \<lparr>state = MESH_UPDATE_SENT, active = a, loaded = True,
     mesh_viewers = 1, collision_viewers = 1\<rparr>"




definition example_box :: Box3i where
  "example_box = \<lparr>pos = (0, 0, 0), bsize = (2, 1, 1)\<rparr>"



definition example_settings :: Settings where
  "example_settings = \<lparr>mesh_block_size_po2 = 4, lod_distance_ceil = 16,
     settings_view_distance_voxels = 64\<rparr>"

definition example_bounds :: Box3i where
  "example_bounds = \<lparr>pos = (0, 0, 0), bsize = (64, 64, 64)\<rparr>"

definition fixed_viewer :: "ViewerID \<Rightarrow> Box3i \<Rightarrow> Box3i \<Rightarrow> Box3i \<Rightarrow> Box3i \<Rightarrow> PairedViewer" where
  "fixed_viewer i prev_data new_data prev_mesh new_mesh =
     \<lparr>viewer_id = i,
      vstate = \<lparr>view_distance_voxels = 16, local_position_voxels = (0, 0, 0),
        requires_collisions = True, requires_meshes = True,
        data_box_per_lod = (\<lambda>_. new_data), mesh_box_per_lod = (\<lambda>_. new_mesh)\<rparr>,
      prev_state = \<lparr>view_distance_voxels = 16, local_position_voxels = (0, 0, 0),
        requires_collisions = True, requires_meshes = True,
        data_box_per_lod = (\<lambda>_. prev_data), mesh_box_per_lod = (\<lambda>_. prev_mesh)\<rparr>\<rparr>"

definition unit_box :: "Vector3i \<Rightarrow> Box3i" where
  "unit_box p = \<lparr>pos = p, bsize = (1, 1, 1)\<rparr>"

text \<open>
  One LOD and two viewers that do not move. The mesh block \<open>(2, 0, 0)\<close> is inside the
  mesh box of the second viewer and outside the one of the first; its update is pending.
\<close>

definition example_two_viewers :: State where
  "example_two_viewers = \<lparr>lods = (\<lambda>_. empty_Lod)
      (0 := empty_Lod\<lparr>mesh_map :=
              [(0, 0, 0) \<mapsto> loaded_block True,
               (2, 0, 0) \<mapsto> new_MeshBlockState\<lparr>state := MESH_UPDATE_NOT_SENT,
                              mesh_viewers := 1, collision_viewers := 1\<rparr>],
            mesh_blocks_pending_update := [(2, 0, 0)]\<rparr>),
     paired_viewers =
       [fixed_viewer 1 Box3i_zero Box3i_zero (unit_box (0, 0, 0)) (unit_box (0, 0, 0)),
        fixed_viewer 2 Box3i_zero Box3i_zero (unit_box (2, 0, 0)) (unit_box (2, 0, 0))],
     loaded_data_blocks = [], loaded_mesh_blocks = []\<rparr>"

definition example_data :: VoxelData where
  "example_data = \<lparr>data_map = (\<lambda>_. Map.empty), block_size_po2 = 4, data_lod_count = 1,
     bounds = example_bounds, streaming_enabled = True, full_load_completed = False\<rparr>"

text \<open>
  One LOD and one viewer whose data box \<open>example_box\<close> becomes empty. The data grid
  holds no block, and only the second cell of the box is in \<open>loading_blocks\<close>.
\<close>

definition example_unview :: DataPass where
  "example_unview = \<lparr>pass_state = \<lparr>lods = (\<lambda>_. empty_Lod)
        (0 := empty_Lod\<lparr>loading_blocks := [(1, 0, 0) \<mapsto> \<lparr>viewers = 1\<rparr>]\<rparr>),
      paired_viewers = [fixed_viewer 1 example_box Box3i_zero Box3i_zero Box3i_zero],
      loaded_data_blocks = [], loaded_mesh_blocks = []\<rparr>,
     pass_data = example_data, blocks_to_save = [], data_blocks_to_load = [((1, 0, 0), 0)]\<rparr>"

text \<open>
  A task with four tiles of 16 pixels and a device that returns the null handle for the
  hit positions buffer and a valid handle for every other resource.
\<close>

definition example_task :: "(nat, nat, nat) GenerateDistanceNormalMapGPUTask" where
  "example_task = \<lparr>mesh_vertices = [0, 1, 2], mesh_indices = [0, 1, 2], cell_triangles = [0],
     tile_data = [0, 1, 2, 3], shader = Some \<lparr>is_valid = True, shader_rid = 40\<rparr>,
     tile_size_pixels = 16, texture_width = 64, texture_height = 64\<rparr>"

definition example_device :: RenderingDevice where
  "example_device = \<lparr>created = (\<lambda>r. 1)(Hit_positions_buffer := 0),
     detail_gather_hits_compute_shader = 41, detail_normalmap_compute_shader = 42,
     dilate_normalmap_compute_shader = 43\<rparr>"

text \<open>
  The first scenario of the specification: two LODs, mesh and data blocks of 16 voxels, a
  LOD distance of 32 and a viewer at the origin with a view distance of 64; with bounds
  that are a multiple of the largest mesh chunk, and with bounds that are not.
\<close>

definition spec_settings :: Settings where
  "spec_settings = \<lparr>mesh_block_size_po2 = 4, lod_distance_ceil = 32,
     settings_view_distance_voxels = 512\<rparr>"

definition origin_viewer :: Viewer where
  "origin_viewer = \<lparr>view_distance_scaled = 64, local_position = (0, 0, 0),
     require_collisions = False, require_visuals = True\<rparr>"

definition aligned_bounds :: Box3i where
  "aligned_bounds = \<lparr>pos = (- 64, - 64, - 64), bsize = (128, 128, 128)\<rparr>"

definition misaligned_bounds :: Box3i where
  "misaligned_bounds = \<lparr>pos = (16, 16, 16), bsize = (64, 64, 64)\<rparr>"


section \<open>Properties of the base box\<close>



lemma coord_v_add: "coord a (v_add p q) = coord a p + coord a q"
  by (cases a; cases p; cases q) simp_all

lemma coord_v_sub: "coord a (v_sub p q) = coord a p - coord a q"
  by (cases a; cases p; cases q) simp_all

lemma coord_v_mul: "coord a (v_mul p k) = coord a p * k"
  by (cases a; cases p) simp_all

lemma coord_create: "coord a (v, v, v) = v"
  by (cases a) simp_all

lemma coord_floordiv_v: "coord a (floordiv_v p d) = floordiv (coord a p) d"
  by (cases a; cases p) simp_all

lemma coord_ceildiv_v: "coord a (ceildiv_v p d) = ceildiv (coord a p) d"
  by (cases a; cases p) simp_all

lemmas coord_simps = coord_v_add coord_v_sub coord_v_mul coord_create coord_floordiv_v
  coord_ceildiv_v

lemma coord_box_end: "coord a (box_end b) = coord a (pos b) + coord a (bsize b)"
  by (simp add: box_end_def coord_v_add)



section \<open>Properties of the mesh activation engine\<close>

lemma child_bits:
  assumes "k < 8"
  shows "int (k AND 1) \<in> {0, 1} \<and> int (drop_bit 1 (k AND 2)) \<in> {0, 1}
     \<and> int (drop_bit 2 (k AND 4)) \<in> {0, 1}"
proof -
  from assms have "k = 0 \<or> k = 1 \<or> k = 2 \<or> k = 3 \<or> k = 4 \<or> k = 5 \<or> k = 6 \<or> k = 7"
    by linarith
  then show ?thesis by (elim disjE) simp_all
qed

lemma parent_of_child:
  assumes "k < 8"
  shows "v_shr (get_child_position p k) 1 = p"
proof -
  obtain a b c where p: "p = (a, b, c)" by (cases p)
  show ?thesis using child_bits [OF assms]
    by (auto simp: p get_child_position_def get_child_position_from_first_sibling_def)
qed

lemma parent_of_child_Suc:
  "k < 8 \<Longrightarrow> v_shr (get_child_position p k) (Suc 0) = p"
  using parent_of_child [of k p] by simp







section \<open>Properties of the streaming differ for mesh blocks\<close>

























text \<open>
  C7 at an input where the code departs from it. The pass over the first viewer removes
  the pending update of \<open>(2, 0, 0)\<close>, which is outside that viewer's mesh box, and the
  mesh block, still in the mesh map for the second viewer, keeps the state
  \<open>MESH_UPDATE_NOT_SENT\<close>: the mesh differ drops the position without the reset to
  \<open>MESH_NEED_UPDATE\<close> that the data differ does.
\<close>

theorem mesh_update_cancelled_without_reset:
  "contains (mesh_box_per_lod (vstate (paired_viewers example_two_viewers ! 1)) 0) (2, 0, 0)
   \<and> mesh_blocks_pending_update (lods example_two_viewers 0) = [(2, 0, 0)]
   \<and> mesh_blocks_pending_update
        (lods (process_mesh_blocks_sliding_box example_two_viewers example_settings
                 example_bounds 1 False True) 0) = []
   \<and> map_option state
        (mesh_map (lods (process_mesh_blocks_sliding_box example_two_viewers example_settings
                 example_bounds 1 False True) 0) (2, 0, 0)) = Some MESH_UPDATE_NOT_SENT"
  by code_simp

section \<open>Properties of the streaming differ for data blocks\<close>

lemma remove_loading_refs_unknown:
  "loading_blocks lod bpos = None \<Longrightarrow>
   remove_loading_refs lod_index (bpos # rest) (lod, to_load) = Return (lod, to_load)"
  by simp

text \<open>
  C8 at an input where the code departs from it. The first missing cell \<open>(0, 0, 0)\<close> is
  not in \<open>loading_blocks\<close>; the function returns there, and the second missing cell
  \<open>(1, 0, 0)\<close> of the same batch keeps its loading block with the viewer count 1 and its
  entry in \<open>data_blocks_to_load\<close>.
\<close>

theorem unview_of_unknown_block_returns:
  "loading_blocks (lods (pass_state example_unview) 0) (0, 0, 0) = None
   \<and> loading_blocks (lods (pass_state
         (process_data_blocks_sliding_box example_unview example_settings 1 True)) 0) (1, 0, 0)
       = Some \<lparr>viewers = 1\<rparr>
   \<and> data_blocks_to_load (process_data_blocks_sliding_box example_unview example_settings 1 True)
       = [((1, 0, 0), 0)]"
  by code_simp


section \<open>Properties of the GPU detail-normalmap task\<close>

text \<open>
  \<open>prepare\<close> fails, and then records nothing, exactly in the cases the source checks.
\<close>

lemma isl_if: "isl (if c then a else b) = (if c then isl a else isl b)"
  by simp

lemma prepare_fails_iff:
  "isl (prepare task rd) =
     (mesh_vertices task = [] \<or> mesh_indices task = [] \<or> cell_triangles task = []
      \<or> (case shader task of
            None \<Rightarrow> True
          | Some sh \<Rightarrow>
              \<not> is_valid sh \<or> list_ex (\<lambda>r. is_null (created rd r)) checked_resources
              \<or> is_null (detail_gather_hits_compute_shader rd)
              \<or> is_null (detail_normalmap_compute_shader rd)
              \<or> is_null (dilate_normalmap_compute_shader rd)))"
proof (cases "shader task")
  case None
  then show ?thesis by (simp add: prepare_def isl_if)
next
  case (Some sh)
  then show ?thesis
    by (simp add: prepare_def checked_resources_def isl_if cong: if_cong)
qed

text \<open>
  C9 at an input where the code departs from it. The creation of the hit positions buffer
  returns the null handle; the source does not check that handle, begins the compute list
  and records the five dispatches.
\<close>

theorem prepare_with_null_hit_positions_buffer:
  "is_null (created example_device Hit_positions_buffer)
   \<and> prepare example_task example_device =
       Inr [Compute_list_begin,
            Bind_compute_pipeline 1, Dispatch 4 4 1, Add_barrier,
            Bind_compute_pipeline 1, Dispatch 4 4 1, Add_barrier,
            Bind_compute_pipeline 1, Dispatch 4 4 1, Add_barrier,
            Bind_compute_pipeline 1, Dispatch 8 8 1, Add_barrier,
            Dispatch 8 8 1, Compute_list_end]"
  by (simp add: prepare_def example_task_def example_device_def is_null_def tile_dispatch_def
      dilation_dispatch_def ceildiv_def floordiv_def)



section \<open>Properties of the planner\<close>

lemma viewer_state_simps [simp]:
  "requires_collisions (viewer_state settings can_mesh viewer s0) = require_collisions viewer"
  "requires_meshes (viewer_state settings can_mesh viewer s0)
     = (require_visuals viewer \<and> can_mesh)"
  "mesh_box_per_lod (viewer_state settings can_mesh viewer s0) = mesh_box_per_lod s0"
  "data_box_per_lod (viewer_state settings can_mesh viewer s0) = data_box_per_lod s0"
  "local_position_voxels (viewer_state settings can_mesh viewer s0) = local_position viewer"
  "view_distance_voxels (viewer_state settings can_mesh viewer s0)
     = min (view_distance_scaled viewer) (settings_view_distance_voxels settings)"
  by (simp_all add: viewer_state_def)

lemma fold_upd_independent:
  "fold (\<lambda>i b. b(i := g i)) [0..<n] b0 j = (if j < n then g j else b0 j)"
  by (induction n) auto

lemma fold_upd_chain:
  "i < n \<Longrightarrow> \<exists>child. fold (\<lambda>k b. b(k := g k (b (k - 1)))) [0..<n] b0 i = g i child"
proof (induction n)
  case 0
  then show ?case by simp
next
  case (Suc n)
  show ?case
  proof (cases "i = n")
    case True
    then show ?thesis by auto
  next
    case False
    with Suc show ?thesis by auto
  qed
qed

lemma coord_pos_clipped:
  "coord a (pos (clipped b lim))
     = fst (clip_range (coord a (pos b)) (coord a (bsize b)) (coord a (pos lim)) (coord a (bsize lim)))"
  by (cases a) (simp_all add: clipped_def Let_def)

lemma coord_bsize_clipped:
  "coord a (bsize (clipped b lim))
     = snd (clip_range (coord a (pos b)) (coord a (bsize b)) (coord a (pos lim)) (coord a (bsize lim)))"
  by (cases a) (simp_all add: clipped_def Let_def)

lemma clip_range_nonneg: "0 \<le> snd (clip_range p sz lp ls)"
  by (simp add: clip_range_def Let_def)

lemma clipped_bsize_nonneg: "0 \<le> coord a (bsize (clipped b lim))"
  by (simp add: coord_bsize_clipped clip_range_nonneg)

lemma clip_range_cells:
  assumes "0 \<le> sz"
  shows "(fst (clip_range p sz lp ls) \<le> v \<and> v < fst (clip_range p sz lp ls) + snd (clip_range p sz lp ls))
       = ((p \<le> v \<and> v < p + sz) \<and> (lp \<le> v \<and> v < lp + ls))"
  using assms by (auto simp: clip_range_def Let_def clamp_def)

lemma all_axes_iff: "all_axes P = (\<forall>a. P a)"
proof
  assume "all_axes P"
  then show "\<forall>a. P a" unfolding all_axes_def by (metis axis.exhaust)
qed (simp add: all_axes_def)

lemma contains_clipped:
  assumes "\<And>a. 0 \<le> coord a (bsize b)"
  shows "contains (clipped b lim) p = (contains b p \<and> contains lim p)"
  unfolding contains_def all_axes_iff coord_box_end coord_pos_clipped coord_bsize_clipped
  using clip_range_cells [OF assms] by blast

lemma clip_range_even:
  assumes "even p" "even sz" "even lp" "even ls"
  shows "even (fst (clip_range p sz lp ls)) \<and> even (snd (clip_range p sz lp ls))"
  using assms by (auto simp: clip_range_def Let_def clamp_def)

lemma even_box_clipped:
  "even_box b \<Longrightarrow> even_box lim \<Longrightarrow> even_box (clipped b lim)"
  unfolding even_box_def all_axes_iff coord_pos_clipped coord_bsize_clipped
  using clip_range_even by blast

lemma even_box_base:
  "even_box (get_base_box_in_chunks center d c True)"
  unfolding even_box_def all_axes_iff
  by (simp add: get_base_box_in_chunks_def Let_def from_min_max_def coord_simps)

lemma even_box_scaled: "even_box (scaled b 2)"
  unfolding even_box_def all_axes_iff by (simp add: scaled_def coord_simps)

lemma coord_v_min: "coord a (v_min p q) = min (coord a p) (coord a q)"
  by (cases a; cases p; cases q) simp_all

lemma coord_v_max: "coord a (v_max p q) = max (coord a p) (coord a q)"
  by (cases a; cases p; cases q) simp_all

lemma even_box_merge_with:
  assumes "even_box b" "even_box c"
  shows "even_box (merge_with b c)"
  using assms unfolding even_box_def all_axes_iff
  by (auto simp: merge_with_def from_min_max_def coord_simps coord_v_min coord_v_max
      coord_box_end min_def max_def)


lemma even_floordiv_ceildiv:
  assumes "2 * c dvd x" "0 < c"
  shows "even (floordiv x c) \<and> even (ceildiv x c)"
proof -
  from assms(1) obtain k where x: "x = 2 * c * k" by (auto simp: dvd_def)
  have "x div c = 2 * k" using assms(2) by (simp add: x)
  moreover have "- x = c * (2 * (- k))" by (simp add: x)
  then have "(- x) div c = 2 * (- k)" using assms(2) by (simp del: mult_minus_right)
  ultimately show ?thesis by (simp add: floordiv_def ceildiv_def)
qed

lemma even_box_downscaled:
  assumes "\<And>a. 2 * c dvd coord a (pos b) \<and> 2 * c dvd coord a (bsize b)" "0 < c"
  shows "even_box (downscaled b c)"
proof -
  have "even (floordiv (coord a (pos b)) c) \<and> even (ceildiv (coord a (box_end b)) c)" for a
    using assms(1) [of a] even_floordiv_ceildiv [OF _ assms(2)]
    by (simp add: coord_box_end)
  then show ?thesis
    unfolding even_box_def all_axes_iff
    by (simp add: downscaled_def from_min_max_def coord_simps)
qed

lemma new_mesh_box_even:
  assumes "lod_index \<noteq> lod_count - 1"
    and "even_box (downscaled bnds (2 ^ (mesh_block_size_po2 settings + lod_index)))"
  shows "even_box (new_mesh_box settings lod_count bnds s lod_index child_box)"
  using assms
  by (simp add: new_mesh_box_def Let_def even_box_clipped even_box_merge_with even_box_base
      even_box_scaled)

lemma plan_mesh_boxes_at:
  "i < lod_count \<Longrightarrow>
   \<exists>child. plan_mesh_boxes settings lod_count bnds s boxes i
     = new_mesh_box settings lod_count bnds s i child"
  unfolding plan_mesh_boxes_def by (rule fold_upd_chain)

text \<open>
  C4, as the code has it. When the position and the size of the volume bounds are
  multiples of the mesh chunk of the last LOD, the mesh box that the planner stores for a
  viewer requiring meshes at a LOD below the last one has an even position and an even
  size on every axis.
\<close>

theorem mesh_boxes_even:
  assumes "require_collisions viewer \<or> (require_visuals viewer \<and> can_mesh)"
    and "lod_index + 1 < lod_count"
    and "bounds_aligned settings lod_count volume_bounds_in_voxels"
  shows "even_box (mesh_box_per_lod
           (process_viewer settings lod_count volume_bounds_in_voxels data_block_size_po2
              can_mesh viewer s0) lod_index)"
proof -
  let ?c = "(2::int) ^ (mesh_block_size_po2 settings + lod_index)"
  have "mesh_block_size_po2 settings + lod_index + 1
      \<le> mesh_block_size_po2 settings + (lod_count - 1)"
    using assms(2) by simp
  then have "(2::int) ^ (mesh_block_size_po2 settings + lod_index + 1)
      dvd 2 ^ (mesh_block_size_po2 settings + (lod_count - 1))"
    by (rule le_imp_power_dvd)
  then have "(2 * ?c) dvd (2::int) ^ (mesh_block_size_po2 settings + (lod_count - 1))"
    by simp
  then have "2 * ?c dvd coord a (pos volume_bounds_in_voxels)
      \<and> 2 * ?c dvd coord a (bsize volume_bounds_in_voxels)" for a
    using assms(3) unfolding bounds_aligned_def all_axes_iff by (meson dvd_trans)
  then have ev: "even_box (downscaled volume_bounds_in_voxels ?c)"
    by (intro even_box_downscaled) simp_all
  have ne: "lod_index \<noteq> lod_count - 1" and lt: "lod_index < lod_count"
    using assms(2) by simp_all
  obtain s child where
    "mesh_box_per_lod (process_viewer settings lod_count volume_bounds_in_voxels
        data_block_size_po2 can_mesh viewer s0) lod_index
      = new_mesh_box settings lod_count volume_bounds_in_voxels s lod_index child"
    using assms(1) plan_mesh_boxes_at [OF lt]
    by (simp add: process_viewer_def Let_def) metis
  then show ?thesis using new_mesh_box_even [OF ne ev] by simp
qed


lemma data_boxes_at:
  assumes "require_collisions viewer \<or> (require_visuals viewer \<and> can_mesh)"
    and "lod_index < lod_count"
  shows "data_box_per_lod (process_viewer settings lod_count bnds data_block_size_po2 can_mesh
            viewer s0) lod_index
       = data_box_of_mesh_box settings bnds data_block_size_po2 lod_index
           (mesh_box_per_lod (process_viewer settings lod_count bnds data_block_size_po2 can_mesh
              viewer s0) lod_index)"
  using assms by (simp add: process_viewer_def Let_def fold_upd_independent)

lemma mesh_box_bsize_nonneg:
  assumes "require_collisions viewer \<or> (require_visuals viewer \<and> can_mesh)"
    and "lod_index < lod_count"
  shows "0 \<le> coord a (bsize (mesh_box_per_lod (process_viewer settings lod_count bnds
            data_block_size_po2 can_mesh viewer s0) lod_index))"
proof -
  obtain s child where
    "mesh_box_per_lod (process_viewer settings lod_count bnds
        data_block_size_po2 can_mesh viewer s0) lod_index
      = new_mesh_box settings lod_count bnds s lod_index child"
    using assms(1) plan_mesh_boxes_at [OF assms(2)]
    by (simp add: process_viewer_def Let_def) metis
  then show ?thesis by (simp add: new_mesh_box_def Let_def clipped_bsize_nonneg)
qed

text \<open>
  C3, as the code has it. For a viewer requiring meshes, the data box of every LOD is the
  mesh box scaled by \<open>mesh_to_data_factor\<close>, padded by 1 and clipped to the volume
  bounds in data blocks of that LOD: its cells are the cells of the padded box that lie
  within these bounds.
\<close>

theorem data_box_from_mesh_box:
  assumes "require_collisions viewer \<or> (require_visuals viewer \<and> can_mesh)"
    and "lod_index < lod_count"
  shows "let s = process_viewer settings lod_count volume_bounds_in_voxels data_block_size_po2
                   can_mesh viewer s0;
             mesh_box = mesh_box_per_lod s lod_index;
             mesh_to_data_factor = 2 ^ mesh_block_size_po2 settings div 2 ^ data_block_size_po2;
             padded_box = padded \<lparr>pos = v_mul (pos mesh_box) mesh_to_data_factor,
                                   bsize = v_mul (bsize mesh_box) mesh_to_data_factor\<rparr> 1;
             volume_bounds = bounds_in_data_blocks volume_bounds_in_voxels
                               (data_block_size_po2 + lod_index)
         in data_box_per_lod s lod_index = clipped padded_box volume_bounds
          \<and> (\<forall>p. contains (data_box_per_lod s lod_index) p
                   = (contains padded_box p \<and> contains volume_bounds p))"
proof -
  let ?s = "process_viewer settings lod_count volume_bounds_in_voxels data_block_size_po2
              can_mesh viewer s0"
  let ?f = "(2::int) ^ mesh_block_size_po2 settings div 2 ^ data_block_size_po2"
  let ?pb = "padded \<lparr>pos = v_mul (pos (mesh_box_per_lod ?s lod_index)) ?f,
                      bsize = v_mul (bsize (mesh_box_per_lod ?s lod_index)) ?f\<rparr> 1"
  have f: "0 \<le> ?f" by (simp add: pos_imp_zdiv_nonneg_iff)
  have "0 \<le> coord a (bsize ?pb)" for a
    using mesh_box_bsize_nonneg [OF assms, of a settings volume_bounds_in_voxels
        data_block_size_po2 s0] f
    by (simp add: padded_def coord_simps)
  note c = contains_clipped [OF this]
  show ?thesis
    using data_boxes_at [OF assms, of settings volume_bounds_in_voxels data_block_size_po2 s0]
    by (simp add: Let_def data_box_of_mesh_box_def c)
qed



lemma fold_upd_chain_stable:
  "i < m \<Longrightarrow> m \<le> n \<Longrightarrow>
   fold (\<lambda>k b. b(k := g k (b (k - 1)))) [0..<n] b0 i
     = fold (\<lambda>k b. b(k := g k (b (k - 1)))) [0..<m] b0 i"
proof (induction n)
  case 0
  then show ?case by simp
next
  case (Suc n)
  show ?case
  proof (cases "m = Suc n")
    case True
    then show ?thesis by simp
  next
    case False
    with Suc show ?thesis by simp
  qed
qed

lemma fold_upd_chain_at:
  assumes "i < n"
  shows "fold (\<lambda>k b. b(k := g k (b (k - 1)))) [0..<n] b0 i
       = g i (if i = 0 then b0 0
              else fold (\<lambda>k b. b(k := g k (b (k - 1)))) [0..<n] b0 (i - 1))"
proof -
  let ?F = "\<lambda>n. fold (\<lambda>k b. b(k := g k (b (k - 1)))) [0..<n] b0"
  have "?F n i = ?F (Suc i) i"
    using assms by (intro fold_upd_chain_stable) simp_all
  also have "\<dots> = g i (?F i (i - 1))" by simp
  also have "?F i (i - 1) = (if i = 0 then b0 0 else ?F n (i - 1))"
  proof (cases "i = 0")
    case True
    then show ?thesis by simp
  next
    case False
    then have "?F n (i - 1) = ?F i (i - 1)"
      using assms by (intro fold_upd_chain_stable) simp_all
    with False show ?thesis by simp
  qed
  finally show ?thesis .
qed

lemma plan_mesh_boxes_chain:
  "i < n \<Longrightarrow>
   plan_mesh_boxes settings n bnds s boxes i
     = new_mesh_box settings n bnds s i
         (if i = 0 then boxes 0 else plan_mesh_boxes settings n bnds s boxes (i - 1))"
  unfolding plan_mesh_boxes_def by (rule fold_upd_chain_at)

lemma mesh_boxes_process_viewer:
  assumes "require_collisions viewer \<or> (require_visuals viewer \<and> can_mesh)"
  shows "mesh_box_per_lod (process_viewer settings lod_count bnds data_block_size_po2 can_mesh
            viewer s0)
       = plan_mesh_boxes settings lod_count bnds (viewer_state settings can_mesh viewer s0)
           (mesh_box_per_lod s0)"
  using assms by (simp add: process_viewer_def Let_def)

lemma mesh_box_per_lod_process_viewer:
  assumes "require_collisions viewer \<or> (require_visuals viewer \<and> can_mesh)"
    and "lod_index < lod_count"
  shows "mesh_box_per_lod (process_viewer settings lod_count bnds data_block_size_po2 can_mesh
            viewer s0) lod_index
       = new_mesh_box settings lod_count bnds (viewer_state settings can_mesh viewer s0) lod_index
           (if lod_index = 0 then mesh_box_per_lod s0 0
            else mesh_box_per_lod (process_viewer settings lod_count bnds data_block_size_po2
                   can_mesh viewer s0) (lod_index - 1))"
  unfolding mesh_boxes_process_viewer [OF assms(1)]
  by (rule plan_mesh_boxes_chain [OF assms(2)])

lemma requires_meshes_process_viewer:
  "requires_meshes (process_viewer settings lod_count bnds data_block_size_po2 can_mesh
      viewer s0) = (require_visuals viewer \<and> can_mesh)"
  by (simp add: process_viewer_def Let_def)

lemma aligned_mesh_box_0:
  "mesh_box_per_lod (process_viewer spec_settings 2 aligned_bounds 4 True origin_viewer
     new_ViewerBoxState) 0 = \<lparr>pos = (- 2, - 2, - 2), bsize = (6, 6, 6)\<rparr>"
proof -
  have "mesh_box_per_lod (process_viewer spec_settings 2 aligned_bounds 4 True origin_viewer
         new_ViewerBoxState) 0
     = new_mesh_box spec_settings 2 aligned_bounds
         (viewer_state spec_settings True origin_viewer new_ViewerBoxState) 0
         (mesh_box_per_lod new_ViewerBoxState 0)"
    by (subst mesh_box_per_lod_process_viewer) (simp_all add: origin_viewer_def)
  also have "\<dots> = \<lparr>pos = (- 2, - 2, - 2), bsize = (6, 6, 6)\<rparr>" by code_simp
  finally show ?thesis .
qed

lemma aligned_data_box_0:
  "data_box_per_lod (process_viewer spec_settings 2 aligned_bounds 4 True origin_viewer
     new_ViewerBoxState) 0 = \<lparr>pos = (- 3, - 3, - 3), bsize = (7, 7, 7)\<rparr>"
proof -
  have "data_box_per_lod (process_viewer spec_settings 2 aligned_bounds 4 True origin_viewer
         new_ViewerBoxState) 0
     = data_box_of_mesh_box spec_settings aligned_bounds 4 0
         \<lparr>pos = (- 2, - 2, - 2), bsize = (6, 6, 6)\<rparr>"
    using data_boxes_at [of origin_viewer True 0 2 spec_settings aligned_bounds 4
        new_ViewerBoxState] aligned_mesh_box_0
    by (simp add: origin_viewer_def)
  also have "\<dots> = \<lparr>pos = (- 3, - 3, - 3), bsize = (7, 7, 7)\<rparr>" by code_simp
  finally show ?thesis .
qed

lemma misaligned_mesh_box_0:
  "mesh_box_per_lod (process_viewer spec_settings 2 misaligned_bounds 4 True origin_viewer
     new_ViewerBoxState) 0 = \<lparr>pos = (1, 1, 1), bsize = (3, 3, 3)\<rparr>"
proof -
  have "mesh_box_per_lod (process_viewer spec_settings 2 misaligned_bounds 4 True origin_viewer
         new_ViewerBoxState) 0
     = new_mesh_box spec_settings 2 misaligned_bounds
         (viewer_state spec_settings True origin_viewer new_ViewerBoxState) 0
         (mesh_box_per_lod new_ViewerBoxState 0)"
    by (subst mesh_box_per_lod_process_viewer) (simp_all add: origin_viewer_def)
  also have "\<dots> = \<lparr>pos = (1, 1, 1), bsize = (3, 3, 3)\<rparr>" by code_simp
  finally show ?thesis .
qed

theorem data_box_from_mesh_box_witness:
  "(require_collisions origin_viewer \<or> (require_visuals origin_viewer \<and> True))
   \<and> (0::nat) < 2
   \<and> data_box_per_lod (process_viewer spec_settings 2 aligned_bounds 4 True origin_viewer
         new_ViewerBoxState) 0
       = clipped (padded \<lparr>pos = v_mul (pos (mesh_box_per_lod (process_viewer spec_settings 2
                    aligned_bounds 4 True origin_viewer new_ViewerBoxState) 0)) 1,
                  bsize = v_mul (bsize (mesh_box_per_lod (process_viewer spec_settings 2
                    aligned_bounds 4 True origin_viewer new_ViewerBoxState) 0)) 1\<rparr> 1)
           (bounds_in_data_blocks aligned_bounds 4)
   \<and> contains (data_box_per_lod (process_viewer spec_settings 2 aligned_bounds 4 True
         origin_viewer new_ViewerBoxState) 0) (3, 3, 3)"
proof -
  have h1: "require_collisions origin_viewer \<or> (require_visuals origin_viewer \<and> True)"
    by (simp add: origin_viewer_def)
  have h2: "(0::nat) < 2" by simp
  have c: "contains \<lparr>pos = (- 3, - 3, - 3), bsize = (7, 7, 7)\<rparr> (3, 3, 3)" by code_simp
  have f: "(2::int) ^ mesh_block_size_po2 spec_settings div 2 ^ 4 = 1"
    by (simp add: spec_settings_def)
  from data_box_from_mesh_box [OF h1 h2, of spec_settings aligned_bounds 4 new_ViewerBoxState]
    h1 h2 c
  show ?thesis unfolding Let_def f aligned_data_box_0 by simp
qed

text \<open>
  The claim as stated fails: the clipped data box does not contain the padded box.
\<close>

theorem data_box_smaller_than_padded_counterexample:
  "requires_meshes (process_viewer spec_settings 2 aligned_bounds 4 True origin_viewer
       new_ViewerBoxState)
   \<and> mesh_box_per_lod (process_viewer spec_settings 2 aligned_bounds 4 True origin_viewer
         new_ViewerBoxState) 0 = \<lparr>pos = (- 2, - 2, - 2), bsize = (6, 6, 6)\<rparr>
   \<and> data_box_per_lod (process_viewer spec_settings 2 aligned_bounds 4 True origin_viewer
         new_ViewerBoxState) 0 = \<lparr>pos = (- 3, - 3, - 3), bsize = (7, 7, 7)\<rparr>
   \<and> padded (scaled \<lparr>pos = (- 2, - 2, - 2), bsize = (6, 6, 6)\<rparr>
         (2 ^ mesh_block_size_po2 spec_settings div 2 ^ 4)) 1
       = \<lparr>pos = (- 3, - 3, - 3), bsize = (8, 8, 8)\<rparr>
   \<and> \<not> contains_box \<lparr>pos = (- 3, - 3, - 3), bsize = (7, 7, 7)\<rparr>
         \<lparr>pos = (- 3, - 3, - 3), bsize = (8, 8, 8)\<rparr>
   \<and> contains \<lparr>pos = (- 3, - 3, - 3), bsize = (8, 8, 8)\<rparr> (4, 4, 4)
   \<and> \<not> contains \<lparr>pos = (- 3, - 3, - 3), bsize = (7, 7, 7)\<rparr> (4, 4, 4)"
proof -
  have "padded (scaled \<lparr>pos = (- 2, - 2, - 2), bsize = (6, 6, 6)\<rparr>
         (2 ^ mesh_block_size_po2 spec_settings div 2 ^ 4)) 1
       = \<lparr>pos = (- 3, - 3, - 3), bsize = (8, 8, 8)\<rparr>"
    by code_simp
  moreover have "\<not> contains_box \<lparr>pos = (- 3, - 3, - 3), bsize = (7, 7, 7)\<rparr>
         \<lparr>pos = (- 3, - 3, - 3), bsize = (8, 8, 8)\<rparr>"
    by code_simp
  moreover have "contains \<lparr>pos = (- 3, - 3, - 3), bsize = (8, 8, 8)\<rparr> (4, 4, 4)"
    by code_simp
  moreover have "\<not> contains \<lparr>pos = (- 3, - 3, - 3), bsize = (7, 7, 7)\<rparr> (4, 4, 4)"
    by code_simp
  moreover have "requires_meshes (process_viewer spec_settings 2 aligned_bounds 4 True
       origin_viewer new_ViewerBoxState)"
    by (simp add: requires_meshes_process_viewer origin_viewer_def)
  ultimately show ?thesis
    using aligned_mesh_box_0 aligned_data_box_0 by simp
qed

theorem mesh_boxes_even_witness:
  "(require_collisions origin_viewer \<or> (require_visuals origin_viewer \<and> True))
   \<and> (0::nat) + 1 < 2
   \<and> bounds_aligned spec_settings 2 aligned_bounds
   \<and> mesh_box_per_lod (process_viewer spec_settings 2 aligned_bounds 4 True origin_viewer
         new_ViewerBoxState) 0 = \<lparr>pos = (- 2, - 2, - 2), bsize = (6, 6, 6)\<rparr>
   \<and> even_box (mesh_box_per_lod (process_viewer spec_settings 2 aligned_bounds 4 True
         origin_viewer new_ViewerBoxState) 0)"
proof -
  have h1: "require_collisions origin_viewer \<or> (require_visuals origin_viewer \<and> True)"
    by (simp add: origin_viewer_def)
  have h2: "(0::nat) + 1 < 2" by simp
  have h3: "bounds_aligned spec_settings 2 aligned_bounds"
    by (simp add: bounds_aligned_def all_axes_def spec_settings_def aligned_bounds_def)
  from mesh_boxes_even [OF h1 h2 h3, of 4 new_ViewerBoxState] h1 h2 h3 aligned_mesh_box_0
  show ?thesis by simp
qed

text \<open>
  The claim as stated fails: with volume bounds that start at an odd mesh chunk, the clip
  leaves a box with an odd position and an odd size at LOD 0 of two.
\<close>

theorem mesh_box_odd_counterexample:
  "requires_meshes (process_viewer spec_settings 2 misaligned_bounds 4 True origin_viewer
       new_ViewerBoxState)
   \<and> (0::nat) \<noteq> 2 - 1
   \<and> mesh_box_per_lod (process_viewer spec_settings 2 misaligned_bounds 4 True origin_viewer
         new_ViewerBoxState) 0 = \<lparr>pos = (1, 1, 1), bsize = (3, 3, 3)\<rparr>
   \<and> \<not> even_box \<lparr>pos = (1, 1, 1), bsize = (3, 3, 3)\<rparr>"
proof -
  have "\<not> even_box \<lparr>pos = (1, 1, 1), bsize = (3, 3, 3)\<rparr>" by code_simp
  moreover have "requires_meshes (process_viewer spec_settings 2 misaligned_bounds 4 True
       origin_viewer new_ViewerBoxState)"
    by (simp add: requires_meshes_process_viewer origin_viewer_def)
  ultimately show ?thesis
    using misaligned_mesh_box_0 by simp
qed


end
